theory Spec2Isabelle
  imports Main "HOL-Library.Sublist" "HOL-Library.Word"
begin

unbundle bit_operations_syntax

section \<open>Text, slices and substring search\<close>

text \<open>
  A Python \<open>str\<close> is a sequence of code points and every offset of the program counts
  code points. The model writes a text as a \<^typ>\<open>string\<close>, one \<^typ>\<open>char\<close> per code
  point, which covers the code points below 256. Offsets are natural numbers: the
  program only ever uses offsets that a regular-expression match returned.
\<close>

abbreviation NL :: char where
  "NL \<equiv> CHR 0x0A"

text \<open>\<open>s[a:b]\<close> for offsets \<open>0 \<le> a\<close>, \<open>0 \<le> b\<close>: empty when \<open>b \<le> a\<close>, clipped at the end.\<close>

definition slice :: "string \<Rightarrow> nat \<Rightarrow> nat \<Rightarrow> string" where
  "slice s a b = take (b - a) (drop a s)"

text \<open>
  \<open>s.find(sub)\<close>: the lowest offset at which \<open>sub\<close> occurs in \<open>s\<close>; \<open>None\<close> stands
  for Python's \<open>-1\<close>.
\<close>

fun find_str :: "string \<Rightarrow> string \<Rightarrow> nat option" where
  "find_str sub [] = (if sub = [] then Some 0 else None)"
| "find_str sub (c # cs) =
     (if prefix sub (c # cs) then Some 0 else map_option Suc (find_str sub cs))"

text \<open>\<open>s.find(sub, start)\<close> for \<open>0 \<le> start\<close>.\<close>

definition find_from :: "string \<Rightarrow> string \<Rightarrow> nat \<Rightarrow> nat option" where
  "find_from s sub start =
     (if length s < start then None
      else map_option (\<lambda>i. start + i) (find_str sub (drop start s)))"

text \<open>\<open>sub in s\<close>.\<close>

definition contains :: "string \<Rightarrow> string \<Rightarrow> bool" where
  "contains sub s = (find_str sub s \<noteq> None)"

text \<open>
  The characters that \<open>\s\<close> of a \<open>str\<close> pattern, \<open>str.isspace\<close> and \<open>str.strip\<close> accept,
  among the code points below 256: \<open>\t \n \v \f \r\<close>, the separators \<open>0x1C..0x1F\<close>,
  the space, \<open>0x85\<close> and the no-break space \<open>0xA0\<close>.
\<close>

definition is_space :: "char \<Rightarrow> bool" where
  "is_space c = (c \<in> set [CHR 0x09, CHR 0x0A, CHR 0x0B, CHR 0x0C, CHR 0x0D,
     CHR 0x1C, CHR 0x1D, CHR 0x1E, CHR 0x1F, CHR 0x20, CHR 0x85, CHR 0xA0])"

section \<open>Block Locator\<close>

text \<open>
  \<^verbatim>\<open>MERMAID_BLOCK_RE = re.compile(r"^```mermaid\s*\n(.*?)\n```\s*", re.DOTALL | re.MULTILINE)\<close>
  The matcher below follows the backtracking order of the pattern, piece by piece.
\<close>

definition MARKER_PREFIX :: string where
  "MARKER_PREFIX = ''<!-- mmd-rendered:''"

definition LOOKAHEAD_REPLACE :: nat where
  "LOOKAHEAD_REPLACE = 600"

definition LOOKAHEAD_APPEND :: nat where
  "LOOKAHEAD_APPEND = 400"

definition OPEN_FENCE :: string where
  "OPEN_FENCE = ''```mermaid''"

definition CLOSE_FENCE :: string where
  "CLOSE_FENCE = NL # ''```''"

text \<open>
  \<open>^\<close> under \<open>re.MULTILINE\<close>: offset \<open>p\<close> is the start of the text or follows a newline.
\<close>

definition at_line_start :: "string \<Rightarrow> nat \<Rightarrow> bool" where
  "at_line_start t p = (p = 0 \<or> (p \<le> length t \<and> t ! (p - 1) = NL))"

text \<open>
  \<open>(.*?)\n```\s*\<close> on the text \<open>body\<close> that follows the opening line. The lazy group
  (with \<open>re.DOTALL\<close>, any character) grows one character at a time until the closing
  fence matches, so the group ends at the first occurrence of the closing fence; the
  greedy \<open>\s*\<close> after it takes every whitespace character. The result is the group and
  the number of characters matched.
\<close>

definition match_body :: "string \<Rightarrow> (string \<times> nat) option" where
  "match_body body =
     (case find_str CLOSE_FENCE body of
        None \<Rightarrow> None
      | Some j \<Rightarrow>
          Some (take j body,
                j + length CLOSE_FENCE
                  + length (takeWhile is_space (drop (j + length CLOSE_FENCE) body))))"

text \<open>
  \<open>\s*\n\<close> followed by the rest of the pattern, on the text \<open>r\<close> after the opening
  fence. The greedy \<open>\s*\<close> first takes the whole run of whitespace and gives characters
  back one at a time: with \<open>k\<close> characters taken, the next one must be the newline and
  the rest of the pattern must match after it; otherwise \<open>k - 1\<close> is tried.
\<close>

fun match_open_ws :: "string \<Rightarrow> nat \<Rightarrow> (string \<times> nat) option" where
  "match_open_ws r k =
     (case (if k < length r \<and> r ! k = NL then match_body (drop (Suc k) r) else None) of
        Some (code, n) \<Rightarrow> Some (code, Suc k + n)
      | None \<Rightarrow> (case k of 0 \<Rightarrow> None | Suc k' \<Rightarrow> match_open_ws r k'))"

text \<open>The pattern without its \<open>^\<close>, matched at the start of \<open>u\<close>.\<close>

definition match_here :: "string \<Rightarrow> (string \<times> nat) option" where
  "match_here u =
     (if prefix OPEN_FENCE u then
        (let r = drop (length OPEN_FENCE) u in
         case match_open_ws r (length (takeWhile is_space r)) of
           None \<Rightarrow> None
         | Some (code, n) \<Rightarrow> Some (code, length OPEN_FENCE + n))
      else None)"

text \<open>The whole pattern at offset \<open>p\<close> of \<open>t\<close>: the group and the length of the match.\<close>

definition match_at :: "string \<Rightarrow> nat \<Rightarrow> (string \<times> nat) option" where
  "match_at t p = (if at_line_start t p then match_here (drop p t) else None)"

text \<open>
  \<open>MERMAID_BLOCK_RE.finditer(md_text)\<close> from offset \<open>p\<close>: the leftmost match at or after
  \<open>p\<close>, then the matches after its end. A match of this pattern is never empty; the
  scan moves on by one character after an empty match, as \<open>finditer\<close> does.
\<close>

function scan_blocks :: "string \<Rightarrow> nat \<Rightarrow> ((nat \<times> nat) \<times> string) list" where
  "scan_blocks t p =
     (if length t \<le> p then []
      else
        (case match_at t p of
           None \<Rightarrow> scan_blocks t (Suc p)
         | Some (code, n) \<Rightarrow>
             ((p, p + n), code) # scan_blocks t (if n = 0 then Suc p else p + n)))"
  by pat_completeness auto
termination
  by (relation "measure (\<lambda>(t, p). length t - p)") auto

text \<open>\<open>find_mermaid_blocks(md_text)\<close>: the list of \<open>((start, end), code)\<close>.\<close>

definition find_mermaid_blocks :: "string \<Rightarrow> ((nat \<times> nat) \<times> string) list" where
  "find_mermaid_blocks md_text = scan_blocks md_text 0"

section \<open>Paths\<close>

text \<open>
  A \<open>pathlib\<close> path, as the library keeps it: the drive, the root and the components
  after them. \<open>path_name\<close> is \<open>Path.name\<close>, the last component.
\<close>

record pure_path =
  drv :: string
  root :: string
  parts :: "string list"

definition path_name :: "pure_path \<Rightarrow> string" where
  "path_name p = (if parts p = [] then [] else last (parts p))"

section \<open>Rewrite Engine\<close>

text \<open>The line \<^verbatim>\<open>f"![{alt}]({rel})\n"\<close> with \<^verbatim>\<open>alt = md_file.stem + " diagram"\<close>.\<close>

definition image_line :: "string \<Rightarrow> string \<Rightarrow> string" where
  "image_line stem rel = ''!['' @ (stem @ '' diagram'') @ '']('' @ rel @ '')'' @ [NL]"

text \<open>
  \<^verbatim>\<open>re.search(r"^\s*!\[[^\]]*\]\([^\)]*mermaid[^\)]*\)\s*\n?", lookahead, re.MULTILINE)\<close>
  together with the test \<^verbatim>\<open>m and m.start() == 0\<close>: the search returns the leftmost
  match, so the test holds exactly when the pattern matches at offset 0, and the result
  is \<open>m.end()\<close> of that match. Every repetition of the pattern is greedy over a
  character class whose complement is the next literal, so giving characters back never
  helps: \<open>\s*\<close> takes the whole run of whitespace, \<open>[^\]]*\<close> everything up to the next
  \<open>]\<close>, and the two \<open>[^\)]*\<close> around \<open>mermaid\<close> together everything up to the next
  \<open>)\<close>, which must hold \<open>mermaid\<close>.
\<close>

definition link_match :: "string \<Rightarrow> nat option" where
  "link_match u =
     (let ws = takeWhile is_space u; r1 = drop (length ws) u in
      if prefix ''!['' r1 then
        (let r2 = drop 2 r1; alt = takeWhile (\<lambda>c. c \<noteq> CHR '']'') r2;
             r3 = drop (length alt) r2 in
         if prefix '']('' r3 then
           (let r4 = drop 2 r3; tgt = takeWhile (\<lambda>c. c \<noteq> CHR '')'') r4;
                r5 = drop (length tgt) r4 in
            if contains ''mermaid'' tgt \<and> prefix '')'' r5 then
              (let r6 = drop 1 r5; ws2 = takeWhile is_space r6;
                   r7 = drop (length ws2) r6 in
               Some (length ws + 2 + length alt + 2 + length tgt + 1 + length ws2
                     + (if prefix [NL] r7 then 1 else 0)))
            else None)
         else None)
      else None)"

text \<open>
  The value of \<open>skip_extra\<close> after the two checks of \<open>replace_blocks_with_images\<close> on
  the lookahead window: the marker naming this image, else an image link at the start.
\<close>

definition skip_extra :: "string \<Rightarrow> string \<Rightarrow> nat" where
  "skip_extra lookahead image_name =
     (case find_str (MARKER_PREFIX @ image_name) lookahead of
        Some marker_idx \<Rightarrow>
          (case find_from lookahead ''-->'' marker_idx of
             Some end_marker \<Rightarrow>
               (let end_after = end_marker + 3 in
                if end_after < length lookahead
                   \<and> slice lookahead end_after (end_after + 1) = [NL]
                then end_after + 1 else end_after)
           | None \<Rightarrow> 0)
      | None \<Rightarrow> (case link_match lookahead of Some m_end \<Rightarrow> m_end | None \<Rightarrow> 0))"

text \<open>
  The loop of \<open>replace_blocks_with_images\<close> from the cursor \<open>last\<close> of the source
  (\<open>last_end\<close> here), with the joined \<open>parts\<close> as its result.
\<close>

fun replace_loop ::
  "string \<Rightarrow> string \<Rightarrow> nat \<Rightarrow> (((nat \<times> nat) \<times> pure_path) \<times> string) list \<Rightarrow> string" where
  "replace_loop md_text stem last_end [] = drop last_end md_text"
| "replace_loop md_text stem last_end ((((start, end), out_path), rel) # rest) =
     slice md_text last_end start @ image_line stem rel
       @ replace_loop md_text stem
           (end + skip_extra (slice md_text end (end + LOOKAHEAD_REPLACE)) (path_name out_path))
           rest"

definition replace_blocks_with_images ::
  "string \<Rightarrow> string \<Rightarrow> ((nat \<times> nat) \<times> pure_path) list \<Rightarrow> string list \<Rightarrow> string" where
  "replace_blocks_with_images md_text stem images_written image_paths_rel =
     replace_loop md_text stem 0 (zip images_written image_paths_rel)"

text \<open>The text \<^verbatim>\<open>f"\n![{alt}]({rel})\n{MARKER_PREFIX}{image_name} -->\n"\<close>.\<close>

definition appended_text :: "string \<Rightarrow> string \<Rightarrow> string \<Rightarrow> string" where
  "appended_text stem rel image_name =
     [NL] @ ''!['' @ (stem @ '' diagram'') @ '']('' @ rel @ '')'' @ [NL]
       @ MARKER_PREFIX @ image_name @ '' -->'' @ [NL]"

text \<open>The test \<^verbatim>\<open>image_name in lookahead or MARKER_PREFIX in lookahead\<close>.\<close>

definition already_rendered :: "string \<Rightarrow> string \<Rightarrow> bool" where
  "already_rendered lookahead image_name =
     (contains image_name lookahead \<or> contains MARKER_PREFIX lookahead)"

fun append_loop ::
  "string \<Rightarrow> string \<Rightarrow> nat \<Rightarrow> (((nat \<times> nat) \<times> pure_path) \<times> string) list \<Rightarrow> string" where
  "append_loop md_text stem last_end [] = drop last_end md_text"
| "append_loop md_text stem last_end ((((start, end), out_path), rel) # rest) =
     slice md_text last_end end
       @ (if already_rendered (slice md_text end (end + LOOKAHEAD_APPEND)) (path_name out_path)
          then [] else appended_text stem rel (path_name out_path))
       @ append_loop md_text stem end rest"

definition add_images_after_blocks ::
  "string \<Rightarrow> string \<Rightarrow> ((nat \<times> nat) \<times> pure_path) list \<Rightarrow> string list \<Rightarrow> string" where
  "add_images_after_blocks md_text stem images_written image_paths_rel =
     append_loop md_text stem 0 (zip images_written image_paths_rel)"

section \<open>Predicates of the properties\<close>

text \<open>
  A list of blocks whose spans lie between \<open>lo\<close> and \<open>hi\<close>, each span non-empty and
  each starting at or after the end of the one before.
\<close>

fun spans_ordered :: "nat \<Rightarrow> nat \<Rightarrow> ((nat \<times> nat) \<times> string) list \<Rightarrow> bool" where
  "spans_ordered lo hi [] = True"
| "spans_ordered lo hi (((s, e), code) # bs) =
     (lo \<le> s \<and> s < e \<and> e \<le> hi \<and> spans_ordered e hi bs)"

text \<open>
  A document that an earlier append-mode run left behind, after its diagram was edited:
  the marker under the block still names the image of the old source.
\<close>

definition stale_doc :: string where
  "stale_doc = ''```mermaid'' @ [NL] @ ''graph TD; A-->C;'' @ [NL] @ ''```'' @ [NL, NL]
     @ ''![doc diagram](doc-mermaid-1-aaaaaaaaaa.png)'' @ [NL]
     @ ''<!-- mmd-rendered:doc-mermaid-1-aaaaaaaaaa.png -->'' @ [NL]"

section \<open>Content Namer\<close>

text \<open>
  \<open>s.encode("utf-8")\<close> for code points below 256: one byte below 128, two bytes above.
  Bytes and 32-bit words are natural numbers, with the wrap-around at \<open>2^32\<close> written
  out.
\<close>

definition utf8_encode_char :: "char \<Rightarrow> nat list" where
  "utf8_encode_char c =
     (let n = (of_char c :: nat) in
      if n < 128 then [n] else [192 + n div 64, 128 + n mod 64])"

definition utf8_encode :: "string \<Rightarrow> nat list" where
  "utf8_encode s = concat (map utf8_encode_char s)"

text \<open>
  \<open>hashlib.sha1\<close>, the Secure Hash Algorithm 1 of FIPS 180: padding to a multiple of 64
  bytes, big-endian words, the 80-word message schedule, 80 rounds per block on the five
  chaining words.
\<close>

definition add32 :: "nat \<Rightarrow> nat \<Rightarrow> nat" where
  "add32 a b = (a + b) mod 4294967296"

definition rotl32 :: "nat \<Rightarrow> nat \<Rightarrow> nat" where
  "rotl32 n w = (push_bit n w mod 4294967296) OR drop_bit (32 - n) w"

definition not32 :: "nat \<Rightarrow> nat" where
  "not32 w = 4294967295 - w"

definition be_bytes8 :: "nat \<Rightarrow> nat list" where
  "be_bytes8 n = map (\<lambda>k. drop_bit k n mod 256) [56, 48, 40, 32, 24, 16, 8, 0]"

definition sha1_pad :: "nat list \<Rightarrow> nat list" where
  "sha1_pad m = m @ [128] @ replicate ((119 - length m mod 64) mod 64) 0
                  @ be_bytes8 (8 * length m)"

fun be_words :: "nat list \<Rightarrow> nat list" where
  "be_words (a # b # c # d # rest) =
     (((a * 256 + b) * 256 + c) * 256 + d) # be_words rest"
| "be_words _ = []"

text \<open>The message schedule is built newest word first: \<open>ws ! 2\<close> is \<open>W(t-3)\<close>.\<close>

definition sha1_next :: "nat list \<Rightarrow> nat list" where
  "sha1_next ws = rotl32 1 (ws ! 2 XOR ws ! 7 XOR ws ! 13 XOR ws ! 15) # ws"

definition sha1_schedule :: "nat list \<Rightarrow> nat list" where
  "sha1_schedule ws16 = rev (foldl (\<lambda>ws t. sha1_next ws) (rev ws16) [16..<80])"

definition sha1_f :: "nat \<Rightarrow> nat \<Rightarrow> nat \<Rightarrow> nat \<Rightarrow> nat" where
  "sha1_f t b c d =
     (if t < 20 then (b AND c) OR (not32 b AND d)
      else if t < 40 then b XOR c XOR d
      else if t < 60 then (b AND c) OR (b AND d) OR (c AND d)
      else b XOR c XOR d)"

definition sha1_k :: "nat \<Rightarrow> nat" where
  "sha1_k t = (if t < 20 then 0x5A827999 else if t < 40 then 0x6ED9EBA1
               else if t < 60 then 0x8F1BBCDC else 0xCA62C1D6)"

type_synonym sha1_state = "nat \<times> nat \<times> nat \<times> nat \<times> nat"

fun sha1_round :: "sha1_state \<Rightarrow> nat \<times> nat \<Rightarrow> sha1_state" where
  "sha1_round (a, b, c, d, e) (t, w) =
     (add32 (add32 (add32 (add32 (rotl32 5 a) (sha1_f t b c d)) e) (sha1_k t)) w,
      a, rotl32 30 b, c, d)"

fun sha1_rounds :: "nat \<Rightarrow> sha1_state \<Rightarrow> nat list \<Rightarrow> sha1_state" where
  "sha1_rounds t s [] = s"
| "sha1_rounds t s (w # ws) = sha1_rounds (t + 1) (sha1_round s (t, w)) ws"

fun sha1_block :: "sha1_state \<Rightarrow> nat list \<Rightarrow> sha1_state" where
  "sha1_block (h0, h1, h2, h3, h4) ws16 =
     (case sha1_rounds 0 (h0, h1, h2, h3, h4) (sha1_schedule ws16) of
        (a, b, c, d, e) \<Rightarrow> (add32 h0 a, add32 h1 b, add32 h2 c, add32 h3 d, add32 h4 e))"

function sha1_blocks :: "sha1_state \<Rightarrow> nat list \<Rightarrow> sha1_state" where
  "sha1_blocks h ws =
     (if length ws < 16 then h
      else sha1_blocks (sha1_block h (take 16 ws)) (drop 16 ws))"
  by pat_completeness auto
termination
  by (relation "measure (\<lambda>(h, ws). length ws)") auto

definition sha1 :: "nat list \<Rightarrow> sha1_state" where
  "sha1 m = sha1_blocks (0x67452301, 0xEFCDAB89, 0x98BADCFE, 0x10325476, 0xC3D2E1F0)
              (be_words (sha1_pad m))"

text \<open>\<open>.hexdigest()\<close>: eight lowercase hexadecimal digits per chaining word.\<close>

definition hex_digit :: "nat \<Rightarrow> char" where
  "hex_digit n = ''0123456789abcdef'' ! (n mod 16)"

definition hex_word :: "nat \<Rightarrow> string" where
  "hex_word w = map (\<lambda>k. hex_digit (drop_bit k w)) [28, 24, 20, 16, 12, 8, 4, 0]"

fun hexdigest :: "sha1_state \<Rightarrow> string" where
  "hexdigest (h0, h1, h2, h3, h4) = concat (map hex_word [h0, h1, h2, h3, h4])"

text \<open>\<^verbatim>\<open>hashlib.sha1(s.encode("utf-8")).hexdigest()[:10]\<close>\<close>

definition hash_text :: "string \<Rightarrow> string" where
  "hash_text s = take 10 (hexdigest (sha1 (utf8_encode s)))"

text \<open>
  \<open>str.lower\<close> on code points below 256: the letters \<open>A..Z\<close> and the accented capitals
  \<open>0xC0..0xDE\<close> (but not the multiplication sign \<open>0xD7\<close>) map to their small
  letters, 32 code points up; every other character stays.
\<close>

definition upper_lower :: "(char \<times> char) list" where
  "upper_lower =
     zip ''ABCDEFGHIJKLMNOPQRSTUVWXYZ'' ''abcdefghijklmnopqrstuvwxyz''
     @ zip [CHR 0xC0, CHR 0xC1, CHR 0xC2, CHR 0xC3, CHR 0xC4, CHR 0xC5, CHR 0xC6, CHR 0xC7,
            CHR 0xC8, CHR 0xC9, CHR 0xCA, CHR 0xCB, CHR 0xCC, CHR 0xCD, CHR 0xCE, CHR 0xCF,
            CHR 0xD0, CHR 0xD1, CHR 0xD2, CHR 0xD3, CHR 0xD4, CHR 0xD5, CHR 0xD6,
            CHR 0xD8, CHR 0xD9, CHR 0xDA, CHR 0xDB, CHR 0xDC, CHR 0xDD, CHR 0xDE]
           [CHR 0xE0, CHR 0xE1, CHR 0xE2, CHR 0xE3, CHR 0xE4, CHR 0xE5, CHR 0xE6, CHR 0xE7,
            CHR 0xE8, CHR 0xE9, CHR 0xEA, CHR 0xEB, CHR 0xEC, CHR 0xED, CHR 0xEE, CHR 0xEF,
            CHR 0xF0, CHR 0xF1, CHR 0xF2, CHR 0xF3, CHR 0xF4, CHR 0xF5, CHR 0xF6,
            CHR 0xF8, CHR 0xF9, CHR 0xFA, CHR 0xFB, CHR 0xFC, CHR 0xFD, CHR 0xFE]"

definition lower_char :: "char \<Rightarrow> char" where
  "lower_char c = (case map_of upper_lower c of Some l \<Rightarrow> l | None \<Rightarrow> c)"

definition lower :: "string \<Rightarrow> string" where
  "lower s = map lower_char s"

text \<open>\<^verbatim>\<open>f"{idx}"\<close> for an index \<open>idx \<ge> 0\<close>: its decimal digits.\<close>

definition digit_char :: "nat \<Rightarrow> char" where
  "digit_char d = ''0123456789'' ! (d mod 10)"

function str_of_nat :: "nat \<Rightarrow> string" where
  "str_of_nat n =
     (if n < 10 then [digit_char n] else str_of_nat (n div 10) @ [digit_char (n mod 10)])"
  by pat_completeness auto
termination
  by (relation "measure id") auto

text \<open>
  The name built in the loop of \<open>process_file\<close>:
  \<^verbatim>\<open>ext = ".svg" if fmt.lower() == "svg" else ".png"\<close> and
  \<^verbatim>\<open>image_name = f"{md_file.stem}-mermaid-{idx}-{h}{ext}"\<close> with \<open>h = hash_text(code)\<close>.
\<close>

definition image_ext :: "string \<Rightarrow> string" where
  "image_ext fmt = (if lower fmt = ''svg'' then ''.svg'' else ''.png'')"

definition image_name :: "string \<Rightarrow> nat \<Rightarrow> string \<Rightarrow> string \<Rightarrow> string" where
  "image_name stem idx code fmt =
     stem @ ''-mermaid-'' @ str_of_nat idx @ ''-'' @ hash_text code @ image_ext fmt"

definition is_lower_hex :: "char \<Rightarrow> bool" where
  "is_lower_hex c = (c \<in> set ''0123456789abcdef'')"

section \<open>Path Resolver\<close>

text \<open>
  The operations of \<open>pathlib\<close> that \<open>process_file\<close> uses, for the two kinds of host:
  on a POSIX host the separator is \<open>/\<close>; on a Windows host it is the backslash, with
  \<open>/\<close> accepted on input, and a path may start with a drive. The model follows
  \<open>pathlib\<close> of CPython 3.11 (\<open>_PosixFlavour\<close>, \<open>_WindowsFlavour\<close>, \<open>PurePath\<close>); the
  field \<open>parts\<close> holds the components after the drive and root.
\<close>

datatype flavour = Posix | Windows

definition BSL :: char where
  "BSL = CHR 0x5C"

definition sep :: "flavour \<Rightarrow> char" where
  "sep fl = (case fl of Posix \<Rightarrow> CHR ''/'' | Windows \<Rightarrow> BSL)"

text \<open>\<open>s.split(c)\<close> and \<open>c.join(xs)\<close> for a one-character separator.\<close>

fun split_on :: "char \<Rightarrow> string \<Rightarrow> string list" where
  "split_on c [] = [[]]"
| "split_on c (x # xs) =
     (if x = c then [] # split_on c xs
      else (case split_on c xs of y # ys \<Rightarrow> (x # y) # ys | [] \<Rightarrow> [[x]]))"

fun join_with :: "char \<Rightarrow> string list \<Rightarrow> string" where
  "join_with c [] = []"
| "join_with c [x] = x"
| "join_with c (x # y # ys) = x @ c # join_with c (y # ys)"

text \<open>\<open>s.replace(a, b)\<close> for single characters.\<close>

definition replace_char :: "char \<Rightarrow> char \<Rightarrow> string \<Rightarrow> string" where
  "replace_char a b s = map (\<lambda>c. if c = a then b else c) s"

text \<open>\<open>_WindowsFlavour._split_extended_path\<close>: the prefix \<open>\\?\\<close> or \<open>\\?\UNC\\<close>.\<close>

definition split_extended_path :: "string \<Rightarrow> string \<times> string" where
  "split_extended_path s =
     (if prefix ([BSL, BSL] @ ''?'' @ [BSL]) s then
        (let s' = drop 4 s in
         if prefix (''UNC'' @ [BSL]) s' then (take 4 s @ take 3 s', BSL # drop 3 s')
         else (take 4 s, s'))
      else ([], s))"

definition drive_letters :: string where
  "drive_letters = ''abcdefghijklmnopqrstuvwxyzABCDEFGHIJKLMNOPQRSTUVWXYZ''"

text \<open>
  \<open>splitroot\<close>: the drive, the root and the rest of a path string. On Windows the string
  has its \<open>/\<close> already replaced by backslashes.
\<close>

definition splitroot_posix :: "string \<Rightarrow> string \<times> string \<times> string" where
  "splitroot_posix part =
     (if part \<noteq> [] \<and> hd part = CHR ''/'' then
        (let stripped_part = dropWhile (\<lambda>c. c = CHR ''/'') part in
         if length part - length stripped_part = 2 then ([], ''//'', stripped_part)
         else ([], ''/'', stripped_part))
      else ([], [], part))"

definition splitroot_drive :: "string \<Rightarrow> string \<Rightarrow> string \<times> string \<times> string" where
  "splitroot_drive pfx part =
     (let has_drv = (slice part 1 2 = '':'' \<and> part \<noteq> [] \<and> hd part \<in> set drive_letters);
          d = (if has_drv then take 2 part else []);
          part' = (if has_drv then drop 2 part else part)
      in if take 1 part' = [BSL]
         then (pfx @ d, [BSL], dropWhile (\<lambda>c. c = BSL) part')
         else (pfx @ d, [], part'))"

definition splitroot_windows :: "string \<Rightarrow> string \<times> string \<times> string" where
  "splitroot_windows part0 =
     (let ext = (slice part0 1 2 = [BSL] \<and> take 1 part0 = [BSL]);
          pfx = (if ext then fst (split_extended_path part0) else []);
          part = (if ext then snd (split_extended_path part0) else part0)
      in if slice part 1 2 = [BSL] \<and> take 1 part = [BSL] \<and> slice part 2 3 \<noteq> [BSL] then
           (case find_from part [BSL] 2 of
              None \<Rightarrow> splitroot_drive pfx part
            | Some index \<Rightarrow>
                (case find_from part [BSL] (index + 1) of
                   None \<Rightarrow>
                     (if pfx \<noteq> [] then (pfx @ drop 1 part, [BSL], [])
                      else (part, [BSL], []))
                 | Some index2 \<Rightarrow>
                     (if index2 = index + 1 then splitroot_drive pfx part
                      else if pfx \<noteq> [] then
                        (pfx @ slice part 1 index2, [BSL], drop (index2 + 1) part)
                      else (take index2 part, [BSL], drop (index2 + 1) part))))
         else splitroot_drive pfx part)"

definition splitroot :: "flavour \<Rightarrow> string \<Rightarrow> string \<times> string \<times> string" where
  "splitroot fl part =
     (case fl of Posix \<Rightarrow> splitroot_posix part | Windows \<Rightarrow> splitroot_windows part)"

text \<open>
  \<open>Path(s)\<close>, that is \<open>parse_parts\<close> of the one string: empty components and \<open>.\<close>
  components are dropped.
\<close>

definition parse_path :: "flavour \<Rightarrow> string \<Rightarrow> pure_path" where
  "parse_path fl s =
     (if s = [] then \<lparr>drv = [], root = [], parts = []\<rparr>
      else
        (case splitroot fl (case fl of Posix \<Rightarrow> s | Windows \<Rightarrow> replace_char CHR ''/'' BSL s) of
           (d, r, rel) \<Rightarrow>
             \<lparr>drv = d, root = r,
              parts = filter (\<lambda>x. x \<noteq> [] \<and> x \<noteq> ''.'') (split_on (sep fl) rel)\<rparr>))"

text \<open>\<open>casefold\<close> of the flavour: lower case on Windows, nothing on POSIX.\<close>

definition casefold :: "flavour \<Rightarrow> string \<Rightarrow> string" where
  "casefold fl s = (case fl of Posix \<Rightarrow> s | Windows \<Rightarrow> lower s)"

text \<open>
  \<open>p / s\<close>, that is \<open>join_parsed_parts\<close> of \<open>p\<close> and the parsed \<open>s\<close>: a second path
  with a root replaces the first (keeping the first drive when it has none); one with
  another drive replaces it; otherwise its components follow those of the first.
\<close>

definition joinpath :: "flavour \<Rightarrow> pure_path \<Rightarrow> string \<Rightarrow> pure_path" where
  "joinpath fl p s =
     (let q = parse_path fl s in
      if root q \<noteq> [] then
        (if drv q = [] \<and> drv p \<noteq> [] then q\<lparr>drv := drv p\<rparr> else q)
      else if drv q \<noteq> [] then
        (if drv q = drv p \<or> casefold fl (drv q) = casefold fl (drv p)
         then \<lparr>drv = drv p, root = root p, parts = parts p @ parts q\<rparr>
         else q)
      else \<lparr>drv = drv p, root = root p, parts = parts p @ parts q\<rparr>)"

text \<open>\<open>str(p)\<close> and \<open>p.as_posix()\<close>, which is \<^verbatim>\<open>str(self).replace(sep, '/')\<close>.\<close>

definition str_path :: "flavour \<Rightarrow> pure_path \<Rightarrow> string" where
  "str_path fl p =
     (let s = drv p @ root p @ join_with (sep fl) (parts p) in
      if s = [] then ''.'' else s)"

definition as_posix :: "flavour \<Rightarrow> pure_path \<Rightarrow> string" where
  "as_posix fl p = replace_char (sep fl) CHR ''/'' (str_path fl p)"

text \<open>
  \<open>p.parent\<close>, and \<open>p.stem\<close>: the name without its last suffix, where a leading or
  a trailing dot starts no suffix.
\<close>

definition path_parent :: "pure_path \<Rightarrow> pure_path" where
  "path_parent p = (if parts p = [] then p else p\<lparr>parts := butlast (parts p)\<rparr>)"

fun rfind_char :: "char \<Rightarrow> string \<Rightarrow> nat option" where
  "rfind_char c [] = None"
| "rfind_char c (x # xs) =
     (case rfind_char c xs of
        Some i \<Rightarrow> Some (Suc i)
      | None \<Rightarrow> (if x = c then Some 0 else None))"

definition path_stem :: "pure_path \<Rightarrow> string" where
  "path_stem p =
     (let name = path_name p in
      case rfind_char CHR ''.'' name of
        Some i \<Rightarrow> (if 0 < i \<and> i < length name - 1 then take i name else name)
      | None \<Rightarrow> name)"

text \<open>\<open>s.strip()\<close>\<close>

definition strip :: "string \<Rightarrow> string" where
  "strip s = rev (dropWhile is_space (rev (dropWhile is_space s)))"

definition DEFAULT_OUT_DIR :: string where
  "DEFAULT_OUT_DIR = ''docs/_assets/mermaid''"

text \<open>
  What \<open>process_file\<close> asks of its host: the kind of paths, the working directory,
  \<open>Path.resolve\<close>, \<open>os.path.relpath\<close>, \<open>Path.exists\<close> and \<open>render_mermaid\<close>. The
  state \<open>'w\<close> is the file system. \<open>render_mermaid\<close> returns \<open>None\<close> when it returns, and
  the exception when it raises one: \<open>RuntimeError\<close> when \<open>mmdc\<close> is not found or ends
  with a non-zero code, \<open>OSError\<close> from the file system.
\<close>

datatype render_error = RuntimeError string | OSError string

record 'w host =
  flav :: flavour
  cwd :: pure_path
  resolve :: "pure_path \<Rightarrow> pure_path"
  relpath :: "pure_path \<Rightarrow> pure_path \<Rightarrow> string"
  path_exists :: "'w \<Rightarrow> pure_path \<Rightarrow> bool"
  render_mermaid :: "'w \<Rightarrow> string \<Rightarrow> pure_path \<Rightarrow> string \<Rightarrow> render_error option \<times> 'w"

text \<open>
  The first part of \<open>process_file\<close>: \<open>(images_base, rel_base_from_md)\<close> for the
  placement \<open>images_dir_rel\<close>, or for the global directory \<open>out_dir\<close> when it is \<open>None\<close>.
\<close>

definition resolve_bases ::
  "'w host \<Rightarrow> pure_path \<Rightarrow> pure_path option \<Rightarrow> string option \<Rightarrow> pure_path \<times> pure_path" where
  "resolve_bases h md_file out_dir images_dir_rel =
     (case images_dir_rel of
        Some dir \<Rightarrow>
          (if lower (strip dir) = ''per-file'' then
             (resolve h (joinpath (flav h) (path_parent md_file) (path_stem md_file @ ''_images'')),
              parse_path (flav h) (path_stem md_file @ ''_images''))
           else if strip dir = [] \<or> strip dir = ''.'' then
             (resolve h (path_parent md_file), parse_path (flav h) ''.'')
           else
             (resolve h (joinpath (flav h) (path_parent md_file) dir),
              parse_path (flav h) dir))
      | None \<Rightarrow>
          (let default_out = joinpath (flav h) (cwd h) DEFAULT_OUT_DIR;
               images_base = resolve h (case out_dir of Some d \<Rightarrow> d | None \<Rightarrow> default_out)
           in (images_base,
               parse_path (flav h) (relpath h images_base (path_parent md_file)))))"

text \<open>\<^verbatim>\<open>rel_path = (rel_base_from_md / image_name).as_posix()\<close>\<close>

definition rel_path_of :: "flavour \<Rightarrow> pure_path \<Rightarrow> string \<Rightarrow> string" where
  "rel_path_of fl rel_base_from_md name =
     as_posix fl (joinpath fl rel_base_from_md name)"

section \<open>Document Processor\<close>

text \<open>
  The lines \<open>process_file\<close> prints: \<open>[DRY]\<close>, \<open>[SKIP]\<close>, \<open>[OK ]\<close> on the standard
  output, \<open>[ERR]\<close> with the block's index and the message on the standard error, and
  the two \<open>[MD ]\<close> lines after the document was written.
\<close>

datatype log_line =
    LogDry pure_path pure_path
  | LogSkip string string
  | LogOk string pure_path
  | LogErr string nat string
  | LogUpdated pure_path
  | LogAppended pure_path

text \<open>\<open>str(e)\<close> of the exception caught.\<close>

fun error_text :: "render_error \<Rightarrow> string" where
  "error_text (RuntimeError m) = m"
| "error_text (OSError m) = m"

text \<open>
  The loop \<^verbatim>\<open>for idx, ((start, end), code) in enumerate(blocks, start=1)\<close> from index
  \<open>idx\<close> on, in the file system \<open>w\<close>: the lists \<open>images_written\<close> and
  \<open>image_paths_rel\<close>, the lines printed, and the file system after the loop.
\<close>

fun render_loop ::
  "'w host \<Rightarrow> pure_path \<Rightarrow> pure_path \<Rightarrow> pure_path \<Rightarrow> string \<Rightarrow> bool \<Rightarrow> bool \<Rightarrow> nat
   \<Rightarrow> ((nat \<times> nat) \<times> string) list \<Rightarrow> 'w
   \<Rightarrow> ((nat \<times> nat) \<times> pure_path) list \<times> string list \<times> log_line list \<times> 'w" where
  "render_loop h md_file images_base rel_base_from_md fmt dry_run force idx [] w =
     ([], [], [], w)"
| "render_loop h md_file images_base rel_base_from_md fmt dry_run force idx
     (((start, end), code) # blocks) w =
     (let name = image_name (path_stem md_file) idx code fmt;
          out_path = joinpath (flav h) images_base name;
          rel_path = rel_path_of (flav h) rel_base_from_md name
      in
      if dry_run then
        (case render_loop h md_file images_base rel_base_from_md fmt dry_run force
                (idx + 1) blocks w of
           (iw, ipr, lg, w') \<Rightarrow>
             (((start, end), out_path) # iw, rel_path # ipr,
              LogDry md_file out_path # lg, w'))
      else if path_exists h w out_path \<and> \<not> force then
        (case render_loop h md_file images_base rel_base_from_md fmt dry_run force
                (idx + 1) blocks w of
           (iw, ipr, lg, w') \<Rightarrow>
             (((start, end), out_path) # iw, rel_path # ipr,
              LogSkip (path_name md_file) (path_name out_path) # lg, w'))
      else
        (case render_mermaid h w code out_path fmt of
           (None, w1) \<Rightarrow>
             (case render_loop h md_file images_base rel_base_from_md fmt dry_run force
                     (idx + 1) blocks w1 of
                (iw, ipr, lg, w') \<Rightarrow>
                  (((start, end), out_path) # iw, rel_path # ipr,
                   LogOk (path_name md_file) out_path # lg, w'))
         | (Some e, w1) \<Rightarrow>
             (case render_loop h md_file images_base rel_base_from_md fmt dry_run force
                     (idx + 1) blocks w1 of
                (iw, ipr, lg, w') \<Rightarrow>
                  (iw, ipr,
                   LogErr (path_name md_file) idx (strip (error_text e)) # lg, w'))))"

text \<open>
  What one call of \<open>process_file\<close> leaves: the pair it returns, the text it wrote back
  to the document (\<open>None\<close> when it did not write), whether it made a backup first, the
  lines printed and the file system after the renders.
\<close>

record 'w outcome =
  counts :: "nat \<times> nat"
  written_text :: "string option"
  backed_up :: bool
  printed :: "log_line list"
  world :: 'w

text \<open>
  \<open>process_file\<close> on the document \<open>md_file\<close> whose content is \<open>text\<close> (the result of
  \<open>md_file.read_text\<close>).
\<close>

definition process_file ::
  "'w host \<Rightarrow> 'w \<Rightarrow> pure_path \<Rightarrow> string \<Rightarrow> pure_path option \<Rightarrow> string option \<Rightarrow> string
   \<Rightarrow> string \<Rightarrow> bool \<Rightarrow> bool \<Rightarrow> bool \<Rightarrow> 'w outcome" where
  "process_file h w md_file text out_dir images_dir_rel fmt mode dry_run backup force =
     (let blocks = find_mermaid_blocks text in
      if blocks = [] then
        \<lparr>counts = (0, 0), written_text = None, backed_up = False, printed = [], world = w\<rparr>
      else
        (case resolve_bases h md_file out_dir images_dir_rel of
           (images_base, rel_base_from_md) \<Rightarrow>
             (case render_loop h md_file images_base rel_base_from_md fmt dry_run force 1
                     blocks w of
                (images_written, image_paths_rel, lg, w') \<Rightarrow>
                  (if mode = ''render_replace'' then
                     (let new_text = replace_blocks_with_images text (path_stem md_file)
                                       images_written image_paths_rel in
                      if \<not> dry_run \<and> new_text \<noteq> text then
                        \<lparr>counts = (length blocks, length images_written),
                         written_text = Some new_text, backed_up = backup,
                         printed = lg @ [LogUpdated md_file], world = w'\<rparr>
                      else
                        \<lparr>counts = (length blocks, length images_written),
                         written_text = None, backed_up = False, printed = lg, world = w'\<rparr>)
                   else if mode = ''render_keep'' then
                     (let new_text = add_images_after_blocks text (path_stem md_file)
                                       images_written image_paths_rel in
                      if new_text \<noteq> text \<and> \<not> dry_run then
                        \<lparr>counts = (length blocks, length images_written),
                         written_text = Some new_text, backed_up = backup,
                         printed = lg @ [LogAppended md_file], world = w'\<rparr>
                      else
                        \<lparr>counts = (length blocks, length images_written),
                         written_text = None, backed_up = False, printed = lg, world = w'\<rparr>)
                   else
                     \<lparr>counts = (length blocks, length images_written),
                      written_text = None, backed_up = False, printed = lg, world = w'\<rparr>))))"

text \<open>
  A name that is one relative path component on the host: it holds no separator and, on
  Windows, no colon (which would end a drive).
\<close>

definition plain_name :: "flavour \<Rightarrow> string \<Rightarrow> bool" where
  "plain_name fl s =
     (case fl of
        Posix \<Rightarrow> CHR ''/'' \<notin> set s
      | Windows \<Rightarrow> CHR ''/'' \<notin> set s \<and> BSL \<notin> set s \<and> CHR '':'' \<notin> set s)"

definition is_digit :: "char \<Rightarrow> bool" where
  "is_digit c = (c \<in> set ''0123456789'')"

text \<open>
  A Windows host for the examples: nothing exists yet, every render succeeds. And the
  document \<open>a\b\doc.md\<close>.
\<close>

definition windows_host :: "unit host" where
  "windows_host = \<lparr>flav = Windows, cwd = parse_path Windows (''C:'' @ [BSL] @ ''work''),
     resolve = (\<lambda>p. p), relpath = (\<lambda>a b. ''..''), path_exists = (\<lambda>w p. False),
     render_mermaid = (\<lambda>w code p fmt. (None, w))\<rparr>"

definition doc_md :: pure_path where
  "doc_md = parse_path Windows (''a'' @ [BSL] @ ''b'' @ [BSL] @ ''doc.md'')"

text \<open>
  For the failure isolation: the pairs that the loop keeps, read off the lines it
  printed (a block with an \<open>[ERR]\<close> line has no pair, every other block has the pair of
  its own paths), and the \<open>[ERR]\<close> lines carrying the index of their block.
\<close>

fun is_err :: "log_line \<Rightarrow> bool" where
  "is_err (LogErr n i m) = True"
| "is_err _ = False"

fun kept_pairs ::
  "'w host \<Rightarrow> pure_path \<Rightarrow> pure_path \<Rightarrow> pure_path \<Rightarrow> string \<Rightarrow> nat
   \<Rightarrow> ((nat \<times> nat) \<times> string) list \<Rightarrow> log_line list
   \<Rightarrow> (((nat \<times> nat) \<times> pure_path) \<times> string) list" where
  "kept_pairs h md_file images_base rel_base_from_md fmt idx (((start, end), code) # blocks)
     (l # ls) =
     (if is_err l then []
      else [(((start, end),
              joinpath (flav h) images_base (image_name (path_stem md_file) idx code fmt)),
             rel_path_of (flav h) rel_base_from_md
               (image_name (path_stem md_file) idx code fmt))])
     @ kept_pairs h md_file images_base rel_base_from_md fmt (idx + 1) blocks ls"
| "kept_pairs h md_file images_base rel_base_from_md fmt idx blocks ls = []"

fun errors_indexed :: "string \<Rightarrow> nat \<Rightarrow> log_line list \<Rightarrow> bool" where
  "errors_indexed n idx [] = True"
| "errors_indexed n idx (LogErr n' i m # ls) =
     (n' = n \<and> i = idx \<and> errors_indexed n (idx + 1) ls)"
| "errors_indexed n idx (l # ls) = errors_indexed n (idx + 1) ls"

text \<open>
  A POSIX host for the examples. Its file system is the list of the files written;
  \<open>mmdc\<close> fails on the diagram \<open>graph TD; A-->B2942700;\<close> and writes every other
  one.
\<close>

definition posix_host :: "pure_path list host" where
  "posix_host = \<lparr>flav = Posix, cwd = parse_path Posix ''/work'',
     resolve = (\<lambda>p. p), relpath = (\<lambda>a b. ''../img''),
     path_exists = (\<lambda>w p. p \<in> set w),
     render_mermaid = (\<lambda>w code p fmt.
        if code = ''graph TD; A-->B2942700;''
        then (Some (RuntimeError ''mmdc failed: Parse error on line 1 ''), w)
        else (None, w @ [p]))\<rparr>"

definition notes_md :: pure_path where
  "notes_md = parse_path Posix ''notes/doc.md''"

definition three_doc :: string where
  "three_doc =
     ''```mermaid'' @ [NL] @ ''graph TD; A-->B;'' @ [NL] @ ''```'' @ [NL, NL]
     @ ''```mermaid'' @ [NL] @ ''graph TD; A-->B2942700;'' @ [NL] @ ''```'' @ [NL, NL]
     @ ''```mermaid'' @ [NL] @ ''graph TD; A-->B2995856;'' @ [NL] @ ''```'' @ [NL]"

definition one_doc :: string where
  "one_doc = ''# Title'' @ [NL, NL] @ ''```mermaid'' @ [NL] @ ''graph TD; A-->B;'' @ [NL]
     @ ''```'' @ [NL] @ ''text'' @ [NL]"

text \<open>
  The directory of the images of \<open>notes/doc.md\<close> in per-file mode and a file in it; a
  host on which every image exists already; a document whose only diagram fails.
\<close>

definition images_dir :: pure_path where
  "images_dir = \<lparr>drv = [], root = [], parts = [''notes'', ''doc_images'']\<rparr>"

definition image_file :: "string \<Rightarrow> pure_path" where
  "image_file n = \<lparr>drv = [], root = [], parts = [''notes'', ''doc_images'', n]\<rparr>"

definition cached_host :: "pure_path list host" where
  "cached_host = posix_host\<lparr>path_exists := (\<lambda>w p. True)\<rparr>"

definition failing_doc :: string where
  "failing_doc = ''```mermaid'' @ [NL] @ ''graph TD; A-->B2942700;'' @ [NL] @ ''```'' @ [NL]"

(*DEFS-END*)

declare match_open_ws.simps [simp del]
declare scan_blocks.simps [simp del]
declare sha1_blocks.simps [simp del]
declare str_of_nat.simps [simp del]

section \<open>Substring search\<close>

lemma find_str_Some:
  "find_str sub s = Some j \<Longrightarrow> prefix sub (drop j s) \<and> j \<le> length s"
  by (induction s arbitrary: j) (auto split: if_splits)

lemma find_str_bound:
  assumes "find_str sub s = Some j"
  shows "j + length sub \<le> length s"
proof -
  from find_str_Some[OF assms] have p: "prefix sub (drop j s)" and j: "j \<le> length s"
    by auto
  from p have "length sub \<le> length (drop j s)" by (rule prefix_length_le)
  with j show ?thesis by simp
qed

section \<open>The locator's matches\<close>

lemma match_body_bound:
  assumes "match_body body = Some (code, n)"
  shows "length CLOSE_FENCE \<le> n \<and> n \<le> length body"
proof -
  from assms obtain j where j: "find_str CLOSE_FENCE body = Some j"
    and n: "n = j + length CLOSE_FENCE
              + length (takeWhile is_space (drop (j + length CLOSE_FENCE) body))"
    by (auto simp: match_body_def split: option.splits)
  have "length (takeWhile is_space (drop (j + length CLOSE_FENCE) body))
          \<le> length (drop (j + length CLOSE_FENCE) body)"
    by (rule length_takeWhile_le)
  with find_str_bound[OF j] n show ?thesis by simp
qed

lemma match_open_ws_bound:
  "match_open_ws r k = Some (code, n) \<Longrightarrow> 0 < n \<and> n \<le> length r"
proof (induction r k rule: match_open_ws.induct)
  case (1 r k)
  show ?case
  proof (cases "if k < length r \<and> r ! k = NL then match_body (drop (Suc k) r) else None")
    case None
    with "1.prems" obtain k' where k: "k = Suc k'" and "match_open_ws r k' = Some (code, n)"
      by (subst (asm) match_open_ws.simps) (auto split: nat.splits)
    with "1.IH"[OF None k] show ?thesis by simp
  next
    case (Some a)
    obtain c m where a: "a = (c, m)" by (cases a)
    from Some a have kl: "k < length r" and mb: "match_body (drop (Suc k) r) = Some (c, m)"
      by (auto split: if_splits)
    from "1.prems" Some a have "n = Suc k + m"
      by (subst (asm) match_open_ws.simps) auto
    with match_body_bound[OF mb] kl show ?thesis by auto
  qed
qed

lemma match_here_bound:
  assumes "match_here u = Some (code, n)"
  shows "0 < n \<and> n \<le> length u"
proof -
  from assms have p: "prefix OPEN_FENCE u"
    by (auto simp: match_here_def split: if_splits)
  from assms p obtain m where m: "match_open_ws (drop (length OPEN_FENCE) u)
      (length (takeWhile is_space (drop (length OPEN_FENCE) u))) = Some (code, m)"
    and n: "n = length OPEN_FENCE + m"
    by (auto simp: match_here_def Let_def split: option.splits)
  from prefix_length_le[OF p] match_open_ws_bound[OF m] n show ?thesis by auto
qed

lemma match_at_bound:
  "match_at t p = Some (code, n) \<Longrightarrow> 0 < n \<and> p + n \<le> length t"
  by (auto simp: match_at_def split: if_splits dest!: match_here_bound)

lemma spans_ordered_mono:
  "spans_ordered lo hi bs \<Longrightarrow> lo' \<le> lo \<Longrightarrow> spans_ordered lo' hi bs"
  by (cases bs) auto

lemma scan_blocks_ordered: "spans_ordered p (length t) (scan_blocks t p)"
proof (induction t p rule: scan_blocks.induct)
  case (1 t p)
  show ?case
  proof (cases "length t \<le> p")
    case True
    then show ?thesis by (subst scan_blocks.simps) simp
  next
    case False
    show ?thesis
    proof (cases "match_at t p")
      case None
      with False "1.IH"(1)
      have "spans_ordered (Suc p) (length t) (scan_blocks t (Suc p))" by simp
      then have "spans_ordered p (length t) (scan_blocks t (Suc p))"
        by (rule spans_ordered_mono) simp
      with False None show ?thesis by (subst scan_blocks.simps) simp
    next
      case (Some a)
      obtain code n where a: "a = (code, n)" by (cases a)
      from match_at_bound Some a have n: "0 < n" "p + n \<le> length t" by auto
      from "1.IH"(2)[OF False Some a[symmetric]] n
      have "spans_ordered (p + n) (length t) (scan_blocks t (p + n))" by simp
      with False Some a n show ?thesis by (subst scan_blocks.simps) simp
    qed
  qed
qed

text \<open>
  C5. \<open>find_mermaid_blocks\<close> is a function of the text alone, and a total one (the scan
  ends on every text). The spans of its result lie inside the text, each is non-empty,
  and each starts at or after the end of the one before: they do not overlap and their
  start offsets increase in the order of the scan.
\<close>

theorem find_mermaid_blocks_ordered:
  "spans_ordered 0 (length md_text) (find_mermaid_blocks md_text)"
  unfolding find_mermaid_blocks_def by (rule scan_blocks_ordered)

section \<open>Append mode: the marker prefix\<close>

lemma slice_0_drop: "slice s 0 e @ drop e s = s"
  by (simp add: slice_def)

text \<open>
  C10. In append mode, at any block of the loop (whatever the cursor \<open>last_end\<close> and the
  blocks still to come), when the marker prefix occurs in the 400 characters after the
  block's end, the loop copies the text up to the block's end and inserts nothing,
  whatever image name the block has now. The name inside the marker is not read, so a
  marker left for an older image of the block suppresses the link to the new one.
\<close>

theorem marker_prefix_suppresses_append:
  assumes "contains MARKER_PREFIX (slice md_text end (end + LOOKAHEAD_APPEND))"
  shows "append_loop md_text stem last_end ((((start, end), out_path), rel) # rest)
           = slice md_text last_end end @ append_loop md_text stem end rest"
  using assms by (simp add: already_rendered_def)

theorem marker_prefix_suppresses_append_witness:
  "find_mermaid_blocks stale_doc = [((0, 33), ''graph TD; A-->C;'')]
   \<and> contains MARKER_PREFIX (slice stale_doc 33 (33 + LOOKAHEAD_APPEND))
   \<and> add_images_after_blocks stale_doc ''doc''
         [((0, 33), \<lparr>drv = [], root = [], parts = [''doc-mermaid-1-bbbbbbbbbb.png'']\<rparr>)]
         [''doc-mermaid-1-bbbbbbbbbb.png''] = stale_doc"
proof -
  have b: "find_mermaid_blocks stale_doc = [((0, 33), ''graph TD; A-->C;'')]"
    by code_simp
  have h: "contains MARKER_PREFIX (slice stale_doc 33 (33 + LOOKAHEAD_APPEND))"
    by code_simp
  from marker_prefix_suppresses_append[OF h, of "''doc''" 0 0
      "\<lparr>drv = [], root = [], parts = [''doc-mermaid-1-bbbbbbbbbb.png'']\<rparr>"
      "''doc-mermaid-1-bbbbbbbbbb.png''" "[]"]
  have "add_images_after_blocks stale_doc ''doc''
         [((0, 33), \<lparr>drv = [], root = [], parts = [''doc-mermaid-1-bbbbbbbbbb.png'']\<rparr>)]
         [''doc-mermaid-1-bbbbbbbbbb.png''] = stale_doc"
    by (simp only: add_images_after_blocks_def zip.simps list.case append_loop.simps
        slice_0_drop)
  with b h show ?thesis by simp
qed

section \<open>Content Namer: the shape of a name\<close>

lemma replicate_num: "replicate (numeral k) x = x # replicate (pred_numeral k) x"
  by (simp add: numeral_eq_Suc)

lemmas sha1_eval = hash_text_def sha1_def sha1_blocks.simps utf8_encode_def
  utf8_encode_char_def sha1_pad_def be_bytes8_def replicate_num sha1_schedule_def
  sha1_next_def rotl32_def add32_def not32_def sha1_f_def sha1_k_def hex_word_def
  hex_digit_def

lemmas name_eval = image_name_def image_ext_def lower_def lower_char_def upper_lower_def
  str_of_nat.simps digit_char_def

text \<open>The model of SHA-1 on the test vector of the standard.\<close>

lemma sha1_abc:
  "hexdigest (sha1 (utf8_encode ''abc'')) = ''a9993e364706816aba3e25717850c26c9cd0d89d''"
  by (simp add: sha1_eval)

lemma hash_text_AB: "hash_text ''graph TD; A-->B;'' = ''9960dae465''"
  by (simp add: sha1_eval)

lemma hash_text_B2942700: "hash_text ''graph TD; A-->B2942700;'' = ''2361a42fa3''"
  by (simp add: sha1_eval)

lemma hash_text_B2995856: "hash_text ''graph TD; A-->B2995856;'' = ''2361a42fa3''"
  by (simp add: sha1_eval)

lemma length_hexdigest: "length (hexdigest st) = 40"
  by (cases st) (simp add: hex_word_def)

lemma hex_digit_lower: "is_lower_hex (hex_digit n)"
  unfolding hex_digit_def is_lower_hex_def by (rule nth_mem) simp

lemma hexdigest_lower: "list_all is_lower_hex (hexdigest st)"
  by (cases st) (simp add: hex_word_def hex_digit_lower)

lemma hash_text_shape:
  "length (hash_text s) = 10 \<and> list_all is_lower_hex (hash_text s)"
proof
  show "length (hash_text s) = 10"
    by (simp add: hash_text_def length_hexdigest)
  have "set (take 10 (hexdigest (sha1 (utf8_encode s))))
          \<subseteq> set (hexdigest (sha1 (utf8_encode s)))"
    by (rule set_take_subset)
  with hexdigest_lower[of "sha1 (utf8_encode s)"]
  show "list_all is_lower_hex (hash_text s)"
    by (auto simp: hash_text_def list_all_iff)
qed

text \<open>
  C3, as the code has it. The name of a block's image is the document's stem, the literal
  \<open>-mermaid-\<close> (not \<open>-diagram-\<close>), the decimal index, a hyphen, the hash and the
  extension. The hash is the first 10 characters of the hexadecimal SHA-1 digest of the
  UTF-8 encoding of the block's source: always 10 characters, each a digit or a letter
  \<open>a..f\<close>. The extension is \<open>.svg\<close> when the format, in lower case, is \<open>svg\<close>, and
  \<open>.png\<close> for every other format.
\<close>

theorem image_name_form:
  "image_name stem idx code fmt =
     stem @ ''-mermaid-'' @ str_of_nat idx @ ''-'' @ hash_text code
       @ (if lower fmt = ''svg'' then ''.svg'' else ''.png'')
   \<and> hash_text code = take 10 (hexdigest (sha1 (utf8_encode code)))
   \<and> length (hash_text code) = 10
   \<and> list_all is_lower_hex (hash_text code)"
  using hash_text_shape[of code] by (simp add: image_name_def image_ext_def hash_text_def)

text \<open>
  The form \<open>{stem}-diagram-{index}-{hash}.{ext}\<close> of the specification is not the name
  the code builds: for the first block \<open>graph TD; A-->B;\<close> of \<open>doc.md\<close>.
\<close>

theorem image_name_diagram_counterexample:
  "image_name ''doc'' 1 ''graph TD; A-->B;'' ''png'' = ''doc-mermaid-1-9960dae465.png''
   \<and> image_name ''doc'' 1 ''graph TD; A-->B;'' ''png''
       \<noteq> ''doc-diagram-1-'' @ hash_text ''graph TD; A-->B;'' @ ''.png''"
  by (simp add: name_eval hash_text_AB)

section \<open>Content Namer: determinism and collisions\<close>

text \<open>
  C4, as the code has it. The name is a function of the source, the stem, the index and
  the format: the same inputs give the same name at every call. With the stem, the index
  and the format fixed, two sources get the same name exactly when their 10-digit hashes
  agree; a change of the source changes the name when it changes the hash.
\<close>

theorem image_name_eq_iff_hash:
  "(image_name stem idx code fmt = image_name stem idx code' fmt)
     = (hash_text code = hash_text code')"
  using hash_text_shape[of code] hash_text_shape[of code']
  by (simp add: image_name_def)

text \<open>Two different sources whose SHA-1 digests share their first 10 digits.\<close>

theorem image_name_collision_counterexample:
  "''graph TD; A-->B2942700;'' \<noteq> ''graph TD; A-->B2995856;''
   \<and> image_name ''doc'' 1 ''graph TD; A-->B2942700;'' ''png''
       = image_name ''doc'' 1 ''graph TD; A-->B2995856;'' ''png''"
  by (simp add: image_name_def hash_text_B2942700 hash_text_B2995856)

section \<open>Path Resolver: the embedded path\<close>

lemma split_on_plain: "c \<notin> set s \<Longrightarrow> split_on c s = [s]"
  by (induction s) auto

lemma replace_char_plain: "a \<notin> set s \<Longrightarrow> replace_char a b s = s"
  by (induction s) (auto simp: replace_char_def)

lemma take1_neq: "c \<notin> set s \<Longrightarrow> take 1 s \<noteq> [c]"
  by (cases s) auto

lemma slice12_neq: "c \<notin> set s \<Longrightarrow> slice s 1 2 \<noteq> [c]"
proof (cases s)
  case Nil
  then show ?thesis by (simp add: slice_def)
next
  case (Cons a as)
  assume "c \<notin> set s"
  with Cons show ?thesis by (cases as) (auto simp: slice_def)
qed

lemma splitroot_plain:
  assumes "plain_name fl s"
  shows "splitroot fl s = ([], [], s)"
proof (cases fl)
  case Posix
  with assms have "CHR ''/'' \<notin> set s" by (simp add: plain_name_def)
  then have "\<not> (s \<noteq> [] \<and> hd s = CHR ''/'')" by (cases s) auto
  with Posix show ?thesis by (auto simp: splitroot_def splitroot_posix_def)
next
  case Windows
  with assms have b: "BSL \<notin> set s" and c: "CHR '':'' \<notin> set s"
    by (simp_all add: plain_name_def)
  from b have t: "take 1 s \<noteq> [BSL]" by (rule take1_neq)
  from c have s12: "slice s 1 2 \<noteq> '':''" by (rule slice12_neq)
  from t s12 have "splitroot_drive [] s = ([], [], s)"
    by (simp add: splitroot_drive_def Let_def)
  with t Windows show ?thesis
    by (simp add: splitroot_def splitroot_windows_def Let_def)
qed

lemma plain_no_sep: "plain_name fl s \<Longrightarrow> sep fl \<notin> set s"
  by (cases fl) (auto simp: plain_name_def sep_def)

lemma parse_path_plain:
  assumes "plain_name fl s" "s \<noteq> []" "s \<noteq> ''.''"
  shows "parse_path fl s = \<lparr>drv = [], root = [], parts = [s]\<rparr>"
proof -
  have r: "(case fl of Posix \<Rightarrow> s | Windows \<Rightarrow> replace_char CHR ''/'' BSL s) = s"
    using assms(1) by (cases fl) (auto simp: plain_name_def replace_char_plain)
  from assms show ?thesis
    by (simp add: parse_path_def r splitroot_plain split_on_plain plain_no_sep)
qed

lemma parse_path_dot: "parse_path fl ''.'' = \<lparr>drv = [], root = [], parts = []\<rparr>"
  by (cases fl)
     (simp_all add: parse_path_def splitroot_def splitroot_posix_def splitroot_windows_def
        splitroot_drive_def replace_char_def slice_def sep_def BSL_def Let_def)

lemma digit_char_is_digit: "is_digit (digit_char k)"
  unfolding digit_char_def is_digit_def by (rule nth_mem) simp

lemma str_of_nat_digits: "list_all is_digit (str_of_nat n)"
proof (induction n rule: str_of_nat.induct)
  case (1 n)
  show ?case
  proof (cases "n < 10")
    case True
    then show ?thesis by (subst str_of_nat.simps) (simp add: digit_char_is_digit)
  next
    case False
    with "1.IH" show ?thesis by (subst str_of_nat.simps) (simp add: digit_char_is_digit)
  qed
qed

lemma reserved_not_digit:
  "\<not> is_digit CHR ''/''" "\<not> is_digit BSL" "\<not> is_digit CHR '':''"
  by (simp_all add: is_digit_def BSL_def)

lemma reserved_not_hex:
  "\<not> is_lower_hex CHR ''/''" "\<not> is_lower_hex BSL" "\<not> is_lower_hex CHR '':''"
  by (simp_all add: is_lower_hex_def BSL_def)

lemma not_in_list_all: "list_all P xs \<Longrightarrow> \<not> P c \<Longrightarrow> c \<notin> set xs"
  by (auto simp: list_all_iff)

lemma reserved_not_in_ext:
  "CHR ''/'' \<notin> set (image_ext fmt)" "BSL \<notin> set (image_ext fmt)"
  "CHR '':'' \<notin> set (image_ext fmt)"
  by (simp_all add: image_ext_def BSL_def)

lemma reserved_not_in_name_tail:
  assumes "\<not> is_digit c" "\<not> is_lower_hex c" "c \<notin> set (image_ext fmt)" "c \<noteq> CHR ''-''"
    "c \<notin> set ''mermaid''"
  shows "c \<notin> set (''-mermaid-'' @ str_of_nat idx @ ''-'' @ hash_text code @ image_ext fmt)"
proof -
  from assms(1) have 1: "c \<notin> set (str_of_nat idx)"
    by (rule not_in_list_all[OF str_of_nat_digits])
  from hash_text_shape[of code] have "list_all is_lower_hex (hash_text code)" by simp
  from this assms(2) have 2: "c \<notin> set (hash_text code)" by (rule not_in_list_all)
  from 1 2 assms(3,4,5) show ?thesis by simp
qed

lemma plain_image_name:
  assumes "plain_name fl stem"
  shows "plain_name fl (image_name stem idx code fmt)"
proof -
  have s: "CHR ''/'' \<notin> set (''-mermaid-'' @ str_of_nat idx @ ''-'' @ hash_text code @ image_ext fmt)"
    by (rule reserved_not_in_name_tail)
       (simp_all add: reserved_not_digit reserved_not_hex reserved_not_in_ext)
  have b: "BSL \<notin> set (''-mermaid-'' @ str_of_nat idx @ ''-'' @ hash_text code @ image_ext fmt)"
    by (rule reserved_not_in_name_tail)
       (simp_all add: reserved_not_digit reserved_not_hex reserved_not_in_ext, simp_all add: BSL_def)
  have c: "CHR '':'' \<notin> set (''-mermaid-'' @ str_of_nat idx @ ''-'' @ hash_text code @ image_ext fmt)"
    by (rule reserved_not_in_name_tail)
       (simp_all add: reserved_not_digit reserved_not_hex reserved_not_in_ext)
  have n: "image_name stem idx code fmt
             = stem @ (''-mermaid-'' @ str_of_nat idx @ ''-'' @ hash_text code @ image_ext fmt)"
    by (simp add: image_name_def)
  from assms s b c show ?thesis
    unfolding n by (cases fl) (simp_all add: plain_name_def)
qed

lemma image_name_not_dot:
  "image_name stem idx code fmt \<noteq> [] \<and> image_name stem idx code fmt \<noteq> ''.''"
proof -
  have "CHR ''-'' \<in> set (image_name stem idx code fmt)"
    by (simp add: image_name_def)
  then show ?thesis by auto
qed

lemma images_dir_plain:
  assumes "plain_name fl stem"
  shows "plain_name fl (stem @ ''_images'')"
  using assms by (cases fl) (auto simp: plain_name_def BSL_def)

lemma replace_char_append:
  "replace_char x y (a @ b) = replace_char x y a @ replace_char x y b"
  by (simp add: replace_char_def)

lemma replace_char_Cons:
  "replace_char x y (c # b) = (if c = x then y else c) # replace_char x y b"
  by (simp add: replace_char_def)

lemma as_posix_two:
  assumes "sep fl \<notin> set a" "sep fl \<notin> set b"
  shows "as_posix fl \<lparr>drv = [], root = [], parts = [a, b]\<rparr> = a @ ''/'' @ b"
  using assms
  by (simp add: as_posix_def str_path_def Let_def replace_char_append replace_char_Cons
        replace_char_plain)

lemma as_posix_one:
  assumes "sep fl \<notin> set a" "a \<noteq> []"
  shows "as_posix fl \<lparr>drv = [], root = [], parts = [a]\<rparr> = a"
  using assms
  by (simp add: as_posix_def str_path_def Let_def replace_char_plain)

lemma as_posix_no_sep:
  "sep fl \<in> set (as_posix fl p) \<Longrightarrow> sep fl = CHR ''/''"
  by (auto simp: as_posix_def replace_char_def split: if_splits)

text \<open>
  C7. For a document whose stem is a plain name of the host, the path embedded for a
  block is: in per-file sibling mode exactly \<open>{stem}_images/{filename}\<close>; with an empty
  or \<open>.\<close> placement just the file name; and in every mode (also the global directory
  and an explicit directory) a string in which the host's separator occurs only if it
  is the forward slash.
\<close>

theorem embedded_path_contract:
  assumes "plain_name (flav h) (path_stem md_file)"
  shows "(lower (strip dir) = ''per-file'' \<longrightarrow>
            rel_path_of (flav h) (snd (resolve_bases h md_file out_dir (Some dir)))
              (image_name (path_stem md_file) idx code fmt)
            = path_stem md_file @ ''_images/'' @ image_name (path_stem md_file) idx code fmt)
       \<and> (strip dir = [] \<or> strip dir = ''.'' \<longrightarrow>
            rel_path_of (flav h) (snd (resolve_bases h md_file out_dir (Some dir)))
              (image_name (path_stem md_file) idx code fmt)
            = image_name (path_stem md_file) idx code fmt)
       \<and> (sep (flav h) \<in> set (rel_path_of (flav h)
               (snd (resolve_bases h md_file out_dir images_dir_rel))
               (image_name (path_stem md_file) idx code fmt))
            \<longrightarrow> sep (flav h) = CHR ''/'')"
proof -
  let ?fl = "flav h"
  let ?stem = "path_stem md_file"
  let ?name = "image_name ?stem idx code fmt"
  have pn: "plain_name ?fl ?name" using assms by (rule plain_image_name)
  have nn: "?name \<noteq> []" "?name \<noteq> ''.''" using image_name_not_dot by auto
  have pname: "parse_path ?fl ?name = \<lparr>drv = [], root = [], parts = [?name]\<rparr>"
    using pn nn by (rule parse_path_plain)
  have pd: "plain_name ?fl (?stem @ ''_images'')" using assms by (rule images_dir_plain)
  have pdir: "parse_path ?fl (?stem @ ''_images'')
                = \<lparr>drv = [], root = [], parts = [?stem @ ''_images'']\<rparr>"
    using pd by (rule parse_path_plain) auto
  have a: "lower (strip dir) = ''per-file'' \<longrightarrow>
            rel_path_of ?fl (snd (resolve_bases h md_file out_dir (Some dir))) ?name
            = ?stem @ ''_images/'' @ ?name"
    using as_posix_two[OF plain_no_sep[OF pd] plain_no_sep[OF pn]]
    by (simp add: resolve_bases_def rel_path_of_def joinpath_def pname pdir)
  have per: "lower [] \<noteq> ''per-file''" "lower ''.'' \<noteq> ''per-file''"
    by (simp_all add: lower_def)
  have b: "strip dir = [] \<or> strip dir = ''.'' \<longrightarrow>
            rel_path_of ?fl (snd (resolve_bases h md_file out_dir (Some dir))) ?name = ?name"
    using as_posix_one[OF plain_no_sep[OF pn] nn(1)] per
    by (auto simp: resolve_bases_def rel_path_of_def joinpath_def pname parse_path_dot)
  have c: "sep ?fl \<in> set (rel_path_of ?fl
               (snd (resolve_bases h md_file out_dir images_dir_rel)) ?name)
            \<longrightarrow> sep ?fl = CHR ''/''"
    unfolding rel_path_of_def using as_posix_no_sep by blast
  from a b c show ?thesis by blast
qed

theorem embedded_path_contract_witness:
  "plain_name (flav windows_host) (path_stem doc_md)
   \<and> rel_path_of Windows (snd (resolve_bases windows_host doc_md None (Some ''per-file'')))
         (image_name ''doc'' 1 ''graph TD; A-->B;'' ''png'')
       = ''doc_images/doc-mermaid-1-9960dae465.png''
   \<and> rel_path_of Windows (snd (resolve_bases windows_host doc_md None (Some ''.'')))
         (image_name ''doc'' 1 ''graph TD; A-->B;'' ''png'')
       = ''doc-mermaid-1-9960dae465.png''
   \<and> BSL \<notin> set (rel_path_of Windows
         (snd (resolve_bases windows_host doc_md None (Some (''img'' @ [BSL] @ ''sub''))))
         (image_name ''doc'' 1 ''graph TD; A-->B;'' ''png''))"
proof -
  have st: "path_stem doc_md = ''doc''" by code_simp
  have fl: "flav windows_host = Windows" by (simp add: windows_host_def)
  have h: "plain_name (flav windows_host) (path_stem doc_md)"
    unfolding st fl by code_simp
  have nm: "image_name ''doc'' 1 ''graph TD; A-->B;'' ''png'' = ''doc-mermaid-1-9960dae465.png''"
    by (simp add: name_eval hash_text_AB)
  have l1: "lower (strip ''per-file'') = ''per-file''" by code_simp
  have l2: "strip ''.'' = ''.''" by code_simp
  have sp: "sep Windows \<noteq> CHR ''/''" "sep Windows = BSL" by (simp_all add: sep_def BSL_def)
  note t1 = embedded_path_contract[OF h, where dir = "''per-file''" and out_dir = None
      and idx = 1 and code = "''graph TD; A-->B;''" and fmt = "''png''"
      and images_dir_rel = "Some (''img'' @ [BSL] @ ''sub'')"]
  note t2 = embedded_path_contract[OF h, where dir = "''.''" and out_dir = None
      and idx = 1 and code = "''graph TD; A-->B;''" and fmt = "''png''"
      and images_dir_rel = "Some (''img'' @ [BSL] @ ''sub'')"]
  from t1 l1 have a: "rel_path_of Windows
         (snd (resolve_bases windows_host doc_md None (Some ''per-file'')))
         (image_name ''doc'' 1 ''graph TD; A-->B;'' ''png'')
       = ''doc_images/doc-mermaid-1-9960dae465.png''"
    unfolding st fl nm by simp
  from t2 l2 have b: "rel_path_of Windows
         (snd (resolve_bases windows_host doc_md None (Some ''.'')))
         (image_name ''doc'' 1 ''graph TD; A-->B;'' ''png'')
       = ''doc-mermaid-1-9960dae465.png''"
    unfolding st fl nm by simp
  from t1 sp have c: "BSL \<notin> set (rel_path_of Windows
         (snd (resolve_bases windows_host doc_md None (Some (''img'' @ [BSL] @ ''sub''))))
         (image_name ''doc'' 1 ''graph TD; A-->B;'' ''png''))"
    unfolding st fl by auto
  from h a b c show ?thesis by simp
qed

section \<open>Document Processor: failures and write-back\<close>

lemma render_loop_structure:
  "render_loop h md ib rb fmt dry_run force idx blocks w = (iw, ipr, lg, w')
   \<Longrightarrow> length lg = length blocks \<and> length iw = length ipr
       \<and> zip iw ipr = kept_pairs h md ib rb fmt idx blocks lg
       \<and> errors_indexed (path_name md) idx lg"
proof (induction blocks arbitrary: idx w iw ipr lg w')
  case Nil
  then show ?case by simp
next
  case (Cons b blocks)
  obtain s e code where b: "b = ((s, e), code)" by (cases b) auto
  obtain iw0 ipr0 lg0 w0 where r0:
    "render_loop h md ib rb fmt dry_run force (idx + 1) blocks w = (iw0, ipr0, lg0, w0)"
    by (metis prod_cases4)
  let ?out = "joinpath (flav h) ib (image_name (path_stem md) idx code fmt)"
  obtain res w1 where rm: "render_mermaid h w code ?out fmt = (res, w1)"
    by (cases "render_mermaid h w code ?out fmt") auto
  obtain iw1 ipr1 lg1 w2 where r1:
    "render_loop h md ib rb fmt dry_run force (idx + 1) blocks w1 = (iw1, ipr1, lg1, w2)"
    by (metis prod_cases4)
  note ih0 = Cons.IH[OF r0]
  note ih1 = Cons.IH[OF r1]
  let ?rel = "rel_path_of (flav h) rb (image_name (path_stem md) idx code fmt)"
  consider (dry) "dry_run"
    | (skip) "\<not> dry_run" "path_exists h w ?out \<and> \<not> force"
    | (ok) "\<not> dry_run" "\<not> (path_exists h w ?out \<and> \<not> force)" "res = None"
    | (err) e where "\<not> dry_run" "\<not> (path_exists h w ?out \<and> \<not> force)" "res = Some e"
    by (cases res) auto
  then show ?case
  proof cases
    case dry
    then have "render_loop h md ib rb fmt dry_run force idx (b # blocks) w
        = (((s, e), ?out) # iw0, ?rel # ipr0, LogDry md ?out # lg0, w0)"
      using r0 by (simp add: b Let_def)
    with Cons.prems have "iw = ((s, e), ?out) # iw0" "ipr = ?rel # ipr0"
      "lg = LogDry md ?out # lg0" by simp_all
    with ih0 b show ?thesis by simp
  next
    case skip
    then have "render_loop h md ib rb fmt dry_run force idx (b # blocks) w
        = (((s, e), ?out) # iw0, ?rel # ipr0,
           LogSkip (path_name md) (path_name ?out) # lg0, w0)"
      using r0 by (simp add: b Let_def)
    with Cons.prems have "iw = ((s, e), ?out) # iw0" "ipr = ?rel # ipr0"
      "lg = LogSkip (path_name md) (path_name ?out) # lg0" by simp_all
    with ih0 b show ?thesis by simp
  next
    case ok
    then have "render_loop h md ib rb fmt dry_run force idx (b # blocks) w
        = (((s, e), ?out) # iw1, ?rel # ipr1, LogOk (path_name md) ?out # lg1, w2)"
      using rm r1 by (auto simp: b Let_def)
    with Cons.prems have "iw = ((s, e), ?out) # iw1" "ipr = ?rel # ipr1"
      "lg = LogOk (path_name md) ?out # lg1" by simp_all
    with ih1 b show ?thesis by simp
  next
    case err
    then have "render_loop h md ib rb fmt dry_run force idx (b # blocks) w
        = (iw1, ipr1, LogErr (path_name md) idx (strip (error_text e)) # lg1, w2)"
      using rm r1 by (auto simp: b Let_def)
    with Cons.prems have "iw = iw1" "ipr = ipr1"
      "lg = LogErr (path_name md) idx (strip (error_text e)) # lg1" by simp_all
    with ih1 b show ?thesis by simp
  qed
qed

text \<open>
  C8. The loop handles every block and prints one line for each. The pairs it hands to
  the rewrite are exactly the pairs of the blocks without an \<open>[ERR]\<close> line, each with
  the paths of its own index, in order; an \<open>[ERR]\<close> line names the document and the
  index of its block. And when \<open>render_mermaid\<close> raises on a block (outside a dry run,
  the image not skipped as existing), the loop prints the \<open>[ERR]\<close> line for that index,
  adds no pair, and goes on with the remaining blocks from the next index: its result on
  them is unchanged, so no failure of one block ends the run.
\<close>

theorem render_failure_isolated:
  "(render_loop h md ib rb fmt dry_run force idx blocks w = (iw, ipr, lg, w')
      \<longrightarrow> length lg = length blocks \<and> length iw = length ipr
          \<and> zip iw ipr = kept_pairs h md ib rb fmt idx blocks lg
          \<and> errors_indexed (path_name md) idx lg)
   \<and> (\<not> dry_run
        \<and> \<not> (path_exists h w (joinpath (flav h) ib (image_name (path_stem md) idx code fmt))
              \<and> \<not> force)
        \<and> render_mermaid h w code
              (joinpath (flav h) ib (image_name (path_stem md) idx code fmt)) fmt = (Some err, w1)
        \<and> render_loop h md ib rb fmt dry_run force (idx + 1) rest w1 = (iw1, ipr1, lg1, w2)
      \<longrightarrow> render_loop h md ib rb fmt dry_run force idx ((span, code) # rest) w
            = (iw1, ipr1, LogErr (path_name md) idx (strip (error_text err)) # lg1, w2))"
  using render_loop_structure[of h md ib rb fmt dry_run force idx blocks w iw ipr lg w']
  by (cases span) (auto simp: Let_def)

lemma replace_no_pairs: "replace_blocks_with_images md_text stem [] rels = md_text"
  by (simp add: replace_blocks_with_images_def)

lemma append_no_pairs: "add_images_after_blocks md_text stem [] rels = md_text"
  by (simp add: add_images_after_blocks_def)

text \<open>
  C9, as the code has it. With an empty list of pairs each rewrite is the identity, and
  when the loop leaves no pair (every render failed) \<open>process_file\<close> does not write the
  document back. Whatever the blocks' outcomes, a text is written back only when it
  differs from the original and the run is not a dry run. (A block whose image exists
  already, or any block of a dry run, does keep its pair: its text is rewritten though
  no file was written for it.)
\<close>

theorem no_pairs_no_write:
  "replace_blocks_with_images md_text stem [] rels = md_text
   \<and> add_images_after_blocks md_text stem [] rels = md_text
   \<and> (fst (render_loop h md_file (fst (resolve_bases h md_file out_dir images_dir_rel))
              (snd (resolve_bases h md_file out_dir images_dir_rel)) fmt dry_run force 1
              (find_mermaid_blocks md_text) w) = []
        \<longrightarrow> written_text (process_file h w md_file md_text out_dir images_dir_rel fmt mode
                            dry_run backup force) = None)
   \<and> (written_text (process_file h w md_file md_text out_dir images_dir_rel fmt mode
                            dry_run backup force) = Some new_text
        \<longrightarrow> new_text \<noteq> md_text \<and> \<not> dry_run)"
proof -
  obtain ib rb where rb: "resolve_bases h md_file out_dir images_dir_rel = (ib, rb)"
    by (cases "resolve_bases h md_file out_dir images_dir_rel") auto
  obtain iw ipr lg w' where rl:
    "render_loop h md_file ib rb fmt dry_run force 1 (find_mermaid_blocks md_text) w
       = (iw, ipr, lg, w')"
    by (metis prod_cases4)
  have 3: "iw = [] \<longrightarrow> written_text (process_file h w md_file md_text out_dir images_dir_rel
             fmt mode dry_run backup force) = None"
    using rb rl by (simp add: process_file_def Let_def replace_no_pairs append_no_pairs)
  have 4: "written_text (process_file h w md_file md_text out_dir images_dir_rel fmt mode
              dry_run backup force) = Some new_text \<longrightarrow> new_text \<noteq> md_text \<and> \<not> dry_run"
    using rb rl by (auto simp: process_file_def Let_def split: if_splits)
  from 3 4 show ?thesis
    using rb rl by (auto simp: replace_no_pairs append_no_pairs)
qed

section \<open>Document Processor: three blocks, the second failing\<close>

lemma notes_stem: "path_stem notes_md = ''doc''" by code_simp
lemma notes_name: "path_name notes_md = ''doc.md''" by code_simp

lemma notes_bases:
  "resolve_bases posix_host notes_md None (Some ''per-file'')
     = (images_dir, \<lparr>drv = [], root = [], parts = [''doc_images'']\<rparr>)"
  by code_simp

lemma names:
  "image_name ''doc'' (Suc 0) ''graph TD; A-->B;'' ''png'' = ''doc-mermaid-1-9960dae465.png''"
  "image_name ''doc'' (Suc (Suc 0)) ''graph TD; A-->B2942700;'' ''png'' = ''doc-mermaid-2-2361a42fa3.png''"
  "image_name ''doc'' (Suc (Suc (Suc 0))) ''graph TD; A-->B2995856;'' ''png'' = ''doc-mermaid-3-2361a42fa3.png''"
  by (simp_all add: name_eval hash_text_AB hash_text_B2942700 hash_text_B2995856)

lemma names_num:
  "image_name ''doc'' 2 ''graph TD; A-->B2942700;'' ''png'' = ''doc-mermaid-2-2361a42fa3.png''"
  "image_name ''doc'' 3 ''graph TD; A-->B2995856;'' ''png'' = ''doc-mermaid-3-2361a42fa3.png''"
  by (simp_all add: name_eval hash_text_B2942700 hash_text_B2995856)

lemma joins:
  "joinpath Posix images_dir ''doc-mermaid-1-9960dae465.png'' = image_file ''doc-mermaid-1-9960dae465.png''"
  "joinpath Posix images_dir ''doc-mermaid-2-2361a42fa3.png'' = image_file ''doc-mermaid-2-2361a42fa3.png''"
  "joinpath Posix images_dir ''doc-mermaid-3-2361a42fa3.png'' = image_file ''doc-mermaid-3-2361a42fa3.png''"
  by code_simp+

lemma rels:
  "rel_path_of Posix \<lparr>drv = [], root = [], parts = [''doc_images'']\<rparr> ''doc-mermaid-1-9960dae465.png'' = ''doc_images/doc-mermaid-1-9960dae465.png''"
  "rel_path_of Posix \<lparr>drv = [], root = [], parts = [''doc_images'']\<rparr> ''doc-mermaid-2-2361a42fa3.png'' = ''doc_images/doc-mermaid-2-2361a42fa3.png''"
  "rel_path_of Posix \<lparr>drv = [], root = [], parts = [''doc_images'']\<rparr> ''doc-mermaid-3-2361a42fa3.png'' = ''doc_images/doc-mermaid-3-2361a42fa3.png''"
  by code_simp+

lemma host_simps:
  "flav posix_host = Posix"
  "path_exists posix_host w p = (p \<in> set w)"
  "render_mermaid posix_host w code p fmt =
     (if code = ''graph TD; A-->B2942700;''
      then (Some (RuntimeError ''mmdc failed: Parse error on line 1 ''), w)
      else (None, w @ [p]))"
  by (simp_all add: posix_host_def)

lemma strip_msg: "strip ''mmdc failed: Parse error on line 1 '' = ''mmdc failed: Parse error on line 1''"
  by code_simp

lemma image_file_name: "path_name (image_file n) = n"
  by (simp add: image_file_def path_name_def)

lemma three_blocks: "find_mermaid_blocks three_doc =
   [((0, 33), ''graph TD; A-->B;''), ((33, 73), ''graph TD; A-->B2942700;''),
    ((73, 112), ''graph TD; A-->B2995856;'')]"
  by code_simp

lemma three_loop:
  "render_loop posix_host notes_md images_dir \<lparr>drv = [], root = [], parts = [''doc_images'']\<rparr>
      ''png'' False False (Suc 0) (find_mermaid_blocks three_doc) []
   = ([((0, 33), image_file ''doc-mermaid-1-9960dae465.png''),
       ((73, 112), image_file ''doc-mermaid-3-2361a42fa3.png'')],
      [''doc_images/doc-mermaid-1-9960dae465.png'', ''doc_images/doc-mermaid-3-2361a42fa3.png''],
      [LogOk ''doc.md'' (image_file ''doc-mermaid-1-9960dae465.png''),
       LogErr ''doc.md'' 2 ''mmdc failed: Parse error on line 1'',
       LogOk ''doc.md'' (image_file ''doc-mermaid-3-2361a42fa3.png'')],
      [image_file ''doc-mermaid-1-9960dae465.png'', image_file ''doc-mermaid-3-2361a42fa3.png''])"
  unfolding three_blocks
  by (simp add: Let_def notes_stem notes_name names joins rels host_simps strip_msg
        image_file_name)
     (simp add: image_file_def)

lemma three_replace:
  "replace_blocks_with_images three_doc ''doc''
     [((0, 33), image_file ''doc-mermaid-1-9960dae465.png''),
      ((73, 112), image_file ''doc-mermaid-3-2361a42fa3.png'')]
     [''doc_images/doc-mermaid-1-9960dae465.png'', ''doc_images/doc-mermaid-3-2361a42fa3.png'']
   = ''![doc diagram](doc_images/doc-mermaid-1-9960dae465.png)'' @ [NL]
     @ ''```mermaid'' @ [NL] @ ''graph TD; A-->B2942700;'' @ [NL] @ ''```'' @ [NL, NL]
     @ ''![doc diagram](doc_images/doc-mermaid-3-2361a42fa3.png)'' @ [NL]"
  by code_simp

lemma three_process:
  "process_file posix_host [] notes_md three_doc None (Some ''per-file'') ''png''
      ''render_replace'' False False False
   = \<lparr>counts = (3, 2),
      written_text = Some (''![doc diagram](doc_images/doc-mermaid-1-9960dae465.png)'' @ [NL]
        @ ''```mermaid'' @ [NL] @ ''graph TD; A-->B2942700;'' @ [NL] @ ''```'' @ [NL, NL]
        @ ''![doc diagram](doc_images/doc-mermaid-3-2361a42fa3.png)'' @ [NL]),
      backed_up = False,
      printed = [LogOk ''doc.md'' (image_file ''doc-mermaid-1-9960dae465.png''),
                 LogErr ''doc.md'' 2 ''mmdc failed: Parse error on line 1'',
                 LogOk ''doc.md'' (image_file ''doc-mermaid-3-2361a42fa3.png''),
                 LogUpdated notes_md],
      world = [image_file ''doc-mermaid-1-9960dae465.png'',
               image_file ''doc-mermaid-3-2361a42fa3.png'']\<rparr>"
proof -
  have ne: "find_mermaid_blocks three_doc \<noteq> []" by (simp add: three_blocks)
  have len: "length (find_mermaid_blocks three_doc) = 3" by (simp add: three_blocks)
  have neq: "(''![doc diagram](doc_images/doc-mermaid-1-9960dae465.png)'' @ [NL]
        @ ''```mermaid'' @ [NL] @ ''graph TD; A-->B2942700;'' @ [NL] @ ''```'' @ [NL, NL]
        @ ''![doc diagram](doc_images/doc-mermaid-3-2361a42fa3.png)'' @ [NL]) \<noteq> three_doc"
    by (simp add: three_doc_def)
  show ?thesis
    using neq
    by (simp add: process_file_def Let_def ne len notes_bases three_loop notes_stem
          three_replace)
qed

lemma tail_loop:
  "render_loop posix_host notes_md images_dir \<lparr>drv = [], root = [], parts = [''doc_images'']\<rparr>
      ''png'' False False (2 + 1) [((73, 112), ''graph TD; A-->B2995856;'')]
      [image_file ''doc-mermaid-1-9960dae465.png'']
   = ([((73, 112), image_file ''doc-mermaid-3-2361a42fa3.png'')],
      [''doc_images/doc-mermaid-3-2361a42fa3.png''],
      [LogOk ''doc.md'' (image_file ''doc-mermaid-3-2361a42fa3.png'')],
      [image_file ''doc-mermaid-1-9960dae465.png'', image_file ''doc-mermaid-3-2361a42fa3.png''])"
  by (simp add: Let_def notes_stem notes_name names_num joins rels host_simps image_file_name)
     (simp add: image_file_def)

lemma name2:
  "image_name (path_stem notes_md) 2 ''graph TD; A-->B2942700;'' ''png''
     = ''doc-mermaid-2-2361a42fa3.png''"
  by (simp add: notes_stem names_num)

theorem render_failure_isolated_witness:
  "process_file posix_host [] notes_md three_doc None (Some ''per-file'') ''png''
      ''render_replace'' False False False
   = \<lparr>counts = (3, 2),
      written_text = Some (''![doc diagram](doc_images/doc-mermaid-1-9960dae465.png)'' @ [NL]
        @ ''```mermaid'' @ [NL] @ ''graph TD; A-->B2942700;'' @ [NL] @ ''```'' @ [NL, NL]
        @ ''![doc diagram](doc_images/doc-mermaid-3-2361a42fa3.png)'' @ [NL]),
      backed_up = False,
      printed = [LogOk ''doc.md'' (image_file ''doc-mermaid-1-9960dae465.png''),
                 LogErr ''doc.md'' 2 ''mmdc failed: Parse error on line 1'',
                 LogOk ''doc.md'' (image_file ''doc-mermaid-3-2361a42fa3.png''),
                 LogUpdated notes_md],
      world = [image_file ''doc-mermaid-1-9960dae465.png'',
               image_file ''doc-mermaid-3-2361a42fa3.png'']\<rparr>
   \<and> zip [((0, 33), image_file ''doc-mermaid-1-9960dae465.png''),
           ((73, 112), image_file ''doc-mermaid-3-2361a42fa3.png'')]
          [''doc_images/doc-mermaid-1-9960dae465.png'',
           ''doc_images/doc-mermaid-3-2361a42fa3.png'']
       = kept_pairs posix_host notes_md images_dir
           \<lparr>drv = [], root = [], parts = [''doc_images'']\<rparr> ''png'' (Suc 0)
           (find_mermaid_blocks three_doc)
           [LogOk ''doc.md'' (image_file ''doc-mermaid-1-9960dae465.png''),
            LogErr ''doc.md'' 2 ''mmdc failed: Parse error on line 1'',
            LogOk ''doc.md'' (image_file ''doc-mermaid-3-2361a42fa3.png'')]
   \<and> errors_indexed (path_name notes_md) (Suc 0)
         [LogOk ''doc.md'' (image_file ''doc-mermaid-1-9960dae465.png''),
          LogErr ''doc.md'' 2 ''mmdc failed: Parse error on line 1'',
          LogOk ''doc.md'' (image_file ''doc-mermaid-3-2361a42fa3.png'')]
   \<and> render_loop posix_host notes_md images_dir
         \<lparr>drv = [], root = [], parts = [''doc_images'']\<rparr> ''png'' False False 2
         [((33, 73), ''graph TD; A-->B2942700;''), ((73, 112), ''graph TD; A-->B2995856;'')]
         [image_file ''doc-mermaid-1-9960dae465.png'']
       = ([((73, 112), image_file ''doc-mermaid-3-2361a42fa3.png'')],
          [''doc_images/doc-mermaid-3-2361a42fa3.png''],
          [LogErr ''doc.md'' 2 ''mmdc failed: Parse error on line 1'',
           LogOk ''doc.md'' (image_file ''doc-mermaid-3-2361a42fa3.png'')],
          [image_file ''doc-mermaid-1-9960dae465.png'',
           image_file ''doc-mermaid-3-2361a42fa3.png''])"
proof -
  note t1 = render_failure_isolated[where h = posix_host and md = notes_md
      and ib = images_dir and rb = "\<lparr>drv = [], root = [], parts = [''doc_images'']\<rparr>"
      and fmt = "''png''" and dry_run = False and force = False and idx = "Suc 0"
      and blocks = "find_mermaid_blocks three_doc" and w = "[]",
      THEN conjunct1, rule_format, OF three_loop]
  have p: "\<not> (path_exists posix_host [image_file ''doc-mermaid-1-9960dae465.png'']
             (joinpath (flav posix_host) images_dir
                (image_name (path_stem notes_md) 2 ''graph TD; A-->B2942700;'' ''png''))
           \<and> \<not> False)"
    by (simp add: name2 host_simps joins image_file_def)
  have r: "render_mermaid posix_host [image_file ''doc-mermaid-1-9960dae465.png'']
             ''graph TD; A-->B2942700;''
             (joinpath (flav posix_host) images_dir
                (image_name (path_stem notes_md) 2 ''graph TD; A-->B2942700;'' ''png'')) ''png''
           = (Some (RuntimeError ''mmdc failed: Parse error on line 1 ''),
              [image_file ''doc-mermaid-1-9960dae465.png''])"
    by (simp add: host_simps)
  have f: "\<not> False" by simp
  note t2 = render_failure_isolated[where h = posix_host and md = notes_md
      and ib = images_dir and rb = "\<lparr>drv = [], root = [], parts = [''doc_images'']\<rparr>"
      and fmt = "''png''" and dry_run = False and force = False and idx = 2
      and w = "[image_file ''doc-mermaid-1-9960dae465.png'']"
      and code = "''graph TD; A-->B2942700;''" and span = "(33, 73)"
      and rest = "[((73, 112), ''graph TD; A-->B2995856;'')]",
      THEN conjunct2, rule_format, OF conjI[OF f conjI[OF p conjI[OF r tail_loop]]]]
  from t1 t2 three_process show ?thesis
    by (simp add: strip_msg notes_name)
qed

section \<open>Document Processor: runs that write no image\<close>

lemma one_blocks: "find_mermaid_blocks one_doc = [((9, 41), ''graph TD; A-->B;'')]"
  by code_simp

lemma failing_blocks:
  "find_mermaid_blocks failing_doc = [((0, 39), ''graph TD; A-->B2942700;'')]"
  by code_simp


lemma cached_simps:
  "flav cached_host = Posix"
  "path_exists cached_host w p = True"
  "resolve cached_host = (\<lambda>p. p)"
  by (simp_all add: cached_host_def posix_host_def)

lemma cached_bases:
  "resolve_bases cached_host notes_md None (Some ''.'')
     = (\<lparr>drv = [], root = [], parts = [''notes'']\<rparr>, \<lparr>drv = [], root = [], parts = []\<rparr>)"
proof -
  have "strip ''.'' = ''.''" "lower ''.'' \<noteq> ''per-file''" by code_simp+
  moreover have "path_parent notes_md = \<lparr>drv = [], root = [], parts = [''notes'']\<rparr>"
    by code_simp
  moreover have "parse_path Posix ''.'' = \<lparr>drv = [], root = [], parts = []\<rparr>"
    by code_simp
  ultimately show ?thesis
    by (simp add: resolve_bases_def cached_simps)
qed

lemma cached_paths:
  "joinpath Posix \<lparr>drv = [], root = [], parts = [''notes'']\<rparr> ''doc-mermaid-1-9960dae465.png''
     = \<lparr>drv = [], root = [], parts = [''notes'', ''doc-mermaid-1-9960dae465.png'']\<rparr>"
  "rel_path_of Posix \<lparr>drv = [], root = [], parts = []\<rparr> ''doc-mermaid-1-9960dae465.png''
     = ''doc-mermaid-1-9960dae465.png''"
  by code_simp+

lemma out_name:
  "path_name \<lparr>drv = [], root = [], parts = [''notes'', ''doc-mermaid-1-9960dae465.png'']\<rparr>
     = ''doc-mermaid-1-9960dae465.png''"
  by (simp add: path_name_def)

lemma one_replace:
  "replace_blocks_with_images one_doc ''doc''
     [((9, 41), \<lparr>drv = [], root = [], parts = [''notes'', ''doc-mermaid-1-9960dae465.png'']\<rparr>)]
     [''doc-mermaid-1-9960dae465.png'']
   = ''# Title'' @ [NL, NL] @ ''![doc diagram](doc-mermaid-1-9960dae465.png)'' @ [NL]
     @ ''text'' @ [NL]"
  by code_simp

lemma cached_process:
  "process_file cached_host [] notes_md one_doc None (Some ''.'') ''png''
      ''render_replace'' False False False
   = \<lparr>counts = (1, 1),
      written_text = Some (''# Title'' @ [NL, NL]
        @ ''![doc diagram](doc-mermaid-1-9960dae465.png)'' @ [NL] @ ''text'' @ [NL]),
      backed_up = False,
      printed = [LogSkip ''doc.md'' ''doc-mermaid-1-9960dae465.png'', LogUpdated notes_md],
      world = []\<rparr>"
proof -
  have neq: "''# Title'' @ [NL, NL] @ ''![doc diagram](doc-mermaid-1-9960dae465.png)'' @ [NL]
        @ ''text'' @ [NL] \<noteq> one_doc"
    by (simp add: one_doc_def)
  show ?thesis
    using neq
    by (simp add: process_file_def Let_def one_blocks cached_bases cached_simps notes_stem
          notes_name names cached_paths one_replace out_name)
qed

text \<open>
  A run in which no image file is written (the one block is skipped because its image
  exists) and the text is rewritten and written back all the same.
\<close>

theorem skipped_existing_counterexample:
  "printed (process_file cached_host [] notes_md one_doc None (Some ''.'') ''png''
      ''render_replace'' False False False)
     = [LogSkip ''doc.md'' ''doc-mermaid-1-9960dae465.png'', LogUpdated notes_md]
   \<and> written_text (process_file cached_host [] notes_md one_doc None (Some ''.'') ''png''
      ''render_replace'' False False False)
     = Some (''# Title'' @ [NL, NL] @ ''![doc diagram](doc-mermaid-1-9960dae465.png)'' @ [NL]
             @ ''text'' @ [NL])
   \<and> ''# Title'' @ [NL, NL] @ ''![doc diagram](doc-mermaid-1-9960dae465.png)'' @ [NL]
             @ ''text'' @ [NL] \<noteq> one_doc"
  by (simp add: cached_process) (simp add: one_doc_def)

lemma failing_loop:
  "render_loop posix_host notes_md
      (fst (resolve_bases posix_host notes_md None (Some ''per-file'')))
      (snd (resolve_bases posix_host notes_md None (Some ''per-file'')))
      ''png'' False False (Suc 0) (find_mermaid_blocks failing_doc) []
   = ([], [], [LogErr ''doc.md'' 1 ''mmdc failed: Parse error on line 1''], [])"
  unfolding failing_blocks notes_bases
  by (simp add: Let_def notes_stem notes_name host_simps strip_msg)

theorem no_pairs_no_write_witness:
  "fst (render_loop posix_host notes_md
      (fst (resolve_bases posix_host notes_md None (Some ''per-file'')))
      (snd (resolve_bases posix_host notes_md None (Some ''per-file'')))
      ''png'' False False 1 (find_mermaid_blocks failing_doc) []) = []
   \<and> written_text (process_file posix_host [] notes_md failing_doc None (Some ''per-file'')
        ''png'' ''render_replace'' False True False) = None
   \<and> written_text (process_file cached_host [] notes_md one_doc None (Some ''.'') ''png''
        ''render_replace'' False False False)
       = Some (''# Title'' @ [NL, NL] @ ''![doc diagram](doc-mermaid-1-9960dae465.png)'' @ [NL]
               @ ''text'' @ [NL])
   \<and> ''# Title'' @ [NL, NL] @ ''![doc diagram](doc-mermaid-1-9960dae465.png)'' @ [NL]
         @ ''text'' @ [NL] \<noteq> one_doc"
proof -
  have a: "fst (render_loop posix_host notes_md
      (fst (resolve_bases posix_host notes_md None (Some ''per-file'')))
      (snd (resolve_bases posix_host notes_md None (Some ''per-file'')))
      ''png'' False False 1 (find_mermaid_blocks failing_doc) []) = []"
    by (simp add: failing_loop)
  have b: "written_text (process_file cached_host [] notes_md one_doc None (Some ''.'') ''png''
        ''render_replace'' False False False)
       = Some (''# Title'' @ [NL, NL] @ ''![doc diagram](doc-mermaid-1-9960dae465.png)'' @ [NL]
               @ ''text'' @ [NL])"
    by (simp add: cached_process)
  note t1 = no_pairs_no_write[where h = posix_host and md_file = notes_md
      and out_dir = None and images_dir_rel = "Some ''per-file''" and fmt = "''png''"
      and dry_run = False and force = False and md_text = failing_doc and w = "[]"
      and mode = "''render_replace''" and backup = True,
      THEN conjunct2, THEN conjunct2, THEN conjunct1, rule_format, OF a]
  note t2 = no_pairs_no_write[where h = cached_host and md_file = notes_md
      and out_dir = None and images_dir_rel = "Some ''.''" and fmt = "''png''"
      and dry_run = False and force = False and md_text = one_doc and w = "[]"
      and mode = "''render_replace''" and backup = False,
      THEN conjunct2, THEN conjunct2, THEN conjunct2, rule_format, OF b]
  from a t1 b t2 show ?thesis by simp
qed

end
